theory Spec2Isabelle
  imports Complex_Main "HOL-Library.AList" "HOL-Library.Word"
begin

section \<open>JavaScript values and objects\<close>

text \<open>
  The plugin stores its preferences in a plain JavaScript object. The TypeScript interface
  \<^verbatim>\<open>PluginSettings\<close> is erased at run time and \<^verbatim>\<open>loadData()\<close> is typed \<^verbatim>\<open>any\<close>, so a property
  may be missing or hold a value of the other scalar type. The values are the scalars of the
  interface: numbers and booleans, and \<^verbatim>\<open>undefined\<close> for a property that is read but absent.
  The program does no arithmetic on numbers: it stores them, tests them for truthiness and
  converts them to strings.
\<close>

datatype jsnumber = Finite real | NaN | PosInfinity | NegInfinity

datatype jsval = JUndefined | JBool bool | JNum jsnumber

fun truthy :: "jsval \<Rightarrow> bool" where
  "truthy JUndefined = False"
| "truthy (JBool b) = b"
| "truthy (JNum (Finite x)) = (x \<noteq> 0)"
| "truthy (JNum NaN) = False"
| "truthy (JNum PosInfinity) = True"
| "truthy (JNum NegInfinity) = True"

text \<open>An object is the list of its own properties, in insertion order.\<close>

type_synonym jsobject = "(string \<times> jsval) list"

definition get_prop :: "jsobject \<Rightarrow> string \<Rightarrow> jsval" where
  "get_prop obj k = (case map_of obj k of None \<Rightarrow> JUndefined | Some v \<Rightarrow> v)"

definition set_prop :: "jsobject \<Rightarrow> string \<Rightarrow> jsval \<Rightarrow> jsobject" where
  "set_prop obj k v = AList.update k v obj"

text \<open>
  \<^verbatim>\<open>Object.assign(target, ...sources)\<close>: the sources are visited from left to right, a source
  that is \<^verbatim>\<open>null\<close> or \<^verbatim>\<open>undefined\<close> is skipped, and every own property of a source is
  assigned to the target.
\<close>

definition assign_from :: "jsobject \<Rightarrow> jsobject option \<Rightarrow> jsobject" where
  "assign_from target source =
     (case source of
        None \<Rightarrow> target
      | Some props \<Rightarrow> foldl (\<lambda>t (k, v). set_prop t k v) target props)"

definition Object_assign :: "jsobject \<Rightarrow> jsobject option list \<Rightarrow> jsobject" where
  "Object_assign target sources = foldl assign_from target sources"

text \<open>
  Text of the editor is a sequence of UTF-16 code units. \<^verbatim>\<open>String.prototype.trim\<close> strips
  the white space and line terminator code points of ECMAScript from both ends.
\<close>

type_synonym jstext = "16 word list"

definition isWhiteSpace :: "16 word \<Rightarrow> bool" where
  "isWhiteSpace c \<longleftrightarrow>
     c \<in> {0x0009, 0x000A, 0x000B, 0x000C, 0x000D, 0x0020, 0x00A0, 0x1680,
          0x2000, 0x2001, 0x2002, 0x2003, 0x2004, 0x2005, 0x2006, 0x2007, 0x2008, 0x2009, 0x200A,
          0x2028, 0x2029, 0x202F, 0x205F, 0x3000, 0xFEFF}"

definition trim :: "jstext \<Rightarrow> jstext" where
  "trim s = rev (dropWhile isWhiteSpace (rev (dropWhile isWhiteSpace s)))"

section \<open>Preferences\<close>

definition DEFAULT_SETTINGS :: jsobject where
  "DEFAULT_SETTINGS =
     [(''animationDuration'', JNum (Finite 2)),
      (''showHeader'', JBool False),
      (''showScroll'', JBool False),
      (''showGraphControls'', JBool False),
      (''autoZenMode'', JBool False),
      (''forceReadable'', JBool True),
      (''vignetteOpacity'', JNum (Finite 0.75)),
      (''vignetteScaleLinear'', JNum (Finite 20)),
      (''vignetteScaleRadial'', JNum (Finite 75))]"

section \<open>The host: workspace, views and the document\<close>

text \<open>
  A DOM element is known by its identity. A view of the host carries its type, its content and
  header elements, and two handles the source reaches through optional chaining:
  \<^verbatim>\<open>dataEngine?.controlsEl\<close> (the controls of a graph view) and \<^verbatim>\<open>editMode?.editorEl\<close>
  (the editing surface). A leaf carries its view and the container element \<^verbatim>\<open>containerEl\<close>,
  which the source reads with no check.
\<close>

type_synonym element = nat

record view =
  viewType :: string
  contentEl :: element
  headerEl :: element
  controlsEl :: "element option"
  editorEl :: "element option"

record leaf =
  view :: view
  containerEl :: "element option"

datatype editor = Editor (getValue: jstext)

record file_info =
  editor :: "editor option"

text \<open>
  Every call of the plugin into the host is recorded in a trace, next to its effect on the
  state; \<open>Enter_fullscreenMode\<close> marks an invocation of \<^verbatim>\<open>fullscreenMode\<close> itself.
\<close>

datatype effect =
    Enter_fullscreenMode
  | SetProperty string string
  | RequestFullscreen element
  | ExitFullscreen
  | ClassAdd element string
  | ClassRemove element string
  | SetOnfullscreenchange element
  | SaveData jsobject

datatype error = TypeError

datatype outcome = Returned | Threw error

text \<open>
  The state: the two fields of the plugin object (\<open>settings\<close>, \<open>isInZenMode\<close>), and what the
  plugin observes and changes in the host.
  \<^item> \<open>activeLeaf\<close> is \<^verbatim>\<open>app.workspace.activeLeaf\<close>;
  \<^item> \<open>activeItemViewLeaf\<close> is \<^verbatim>\<open>app.workspace.getActiveViewOfType(ItemView)?.leaf\<close>;
  \<^item> \<open>activeEditor\<close> is \<^verbatim>\<open>app.workspace.activeEditor\<close>;
  \<^item> \<open>readableLineLength\<close> is \<^verbatim>\<open>app.vault.getConfig('readableLineLength')\<close>;
  \<^item> \<open>storedData\<close> is what \<^verbatim>\<open>loadData()\<close> returns and \<^verbatim>\<open>saveData\<close> replaces;
  \<^item> \<open>fullscreenElement\<close> is \<^verbatim>\<open>document.fullscreenElement\<close>;
  \<^item> \<open>classes e\<close> is the \<^verbatim>\<open>classList\<close> of element \<open>e\<close>;
  \<^item> \<open>rootStyle\<close> holds the custom properties of \<^verbatim>\<open>document.documentElement.style\<close>;
  \<^item> \<open>onfullscreenchange e\<close> is the handler installed on element \<open>e\<close>: the closure of
    \<^verbatim>\<open>fullscreenMode\<close>, known by the leaf it captured;
  \<^item> \<open>numberToString\<close> is the conversion of a number to a string by the JavaScript runtime.
\<close>

record world =
  settings :: jsobject
  isInZenMode :: bool
  activeLeaf :: "leaf option"
  activeItemViewLeaf :: "leaf option"
  activeEditor :: "file_info option"
  readableLineLength :: bool
  storedData :: "jsobject option"
  fullscreenElement :: "element option"
  classes :: "element \<Rightarrow> string set"
  rootStyle :: "string \<rightharpoonup> string"
  onfullscreenchange :: "element \<rightharpoonup> leaf"
  numberToString :: "jsnumber \<Rightarrow> string"
  trace :: "effect list"

definition emit :: "effect \<Rightarrow> world \<Rightarrow> world" where
  "emit e w = w\<lparr>trace := trace w @ [e]\<rparr>"

text \<open>\<^verbatim>\<open>value + 'suffix'\<close>: the value is converted to a string and the suffix appended.\<close>

fun toString :: "world \<Rightarrow> jsval \<Rightarrow> string" where
  "toString w JUndefined = ''undefined''"
| "toString w (JBool b) = (if b then ''true'' else ''false'')"
| "toString w (JNum n) = numberToString w n"

definition setProperty :: "string \<Rightarrow> string \<Rightarrow> world \<Rightarrow> world" where
  "setProperty name v w = emit (SetProperty name v) (w\<lparr>rootStyle := (rootStyle w)(name \<mapsto> v)\<rparr>)"

definition classList_add :: "element \<Rightarrow> string \<Rightarrow> world \<Rightarrow> world" where
  "classList_add e c w = emit (ClassAdd e c) (w\<lparr>classes := (classes w)(e := insert c (classes w e))\<rparr>)"

definition classList_remove :: "element \<Rightarrow> string list \<Rightarrow> world \<Rightarrow> world" where
  "classList_remove e cs w =
     w\<lparr>classes := (classes w)(e := classes w e - set cs),
       trace := trace w @ map (ClassRemove e) cs\<rparr>"

text \<open>
  The fullscreen API of the host, as the state machine of the plugin relies on it (a call of
  the toggle flips the direction of the next one): a request is granted and makes the element
  the fullscreen element, an exit leaves no fullscreen element, and both have taken effect
  when the next handler runs.
\<close>

definition requestFullscreen :: "element \<Rightarrow> world \<Rightarrow> world" where
  "requestFullscreen e w = emit (RequestFullscreen e) (w\<lparr>fullscreenElement := Some e\<rparr>)"

definition exitFullscreen :: "world \<Rightarrow> world" where
  "exitFullscreen w = emit ExitFullscreen (w\<lparr>fullscreenElement := None\<rparr>)"

section \<open>The plugin\<close>

subsection \<open>Loading and saving the preferences\<close>

text \<open>
  \<^verbatim>\<open>this.settings = Object.assign({}, DEFAULT_SETTINGS, await this.loadData())\<close>;
  \<^verbatim>\<open>loadData()\<close> yields \<^verbatim>\<open>null\<close> (here \<open>None\<close>) when nothing was stored.
\<close>

definition loadSettings :: "world \<Rightarrow> world" where
  "loadSettings w = w\<lparr>settings := Object_assign [] [Some DEFAULT_SETTINGS, storedData w]\<rparr>"

definition saveSettings :: "world \<Rightarrow> world" where
  "saveSettings w = emit (SaveData (settings w)) (w\<lparr>storedData := Some (settings w)\<rparr>)"

text \<open>
  Every control of the settings tab has the same change handler, for its own field:
  \<^verbatim>\<open>this.plugin.settings.field = value; await this.plugin.saveSettings()\<close>.
  The text field passes \<^verbatim>\<open>Number(value)\<close>, here the number \<open>v\<close> itself; the sliders also
  rewrite the label that shows their value, which is no part of the state.
\<close>

definition onChange :: "string \<Rightarrow> jsval \<Rightarrow> world \<Rightarrow> world" where
  "onChange field v w = saveSettings (w\<lparr>settings := set_prop (settings w) field v\<rparr>)"

subsection \<open>Applying and removing the styles\<close>

definition addStyles :: "leaf \<Rightarrow> world \<Rightarrow> world" where
  "addStyles leaf w0 =
     (let viewEl = contentEl (view leaf);
          header = headerEl (view leaf);
          isGraph = (viewType (view leaf) = ''graph'');
          graphControls = (if isGraph then controlsEl (view leaf) else None);
          w1 = (if \<not> truthy (get_prop (settings w0) ''showScroll'')
                then classList_add viewEl ''noscroll'' w0 else w0);
          w2 = (if isGraph \<and> \<not> truthy (get_prop (settings w1) ''showGraphControls'')
                then (case graphControls of
                        Some g \<Rightarrow> classList_add g ''hide'' w1
                      | None \<Rightarrow> w1)
                else w1);
          w3 = (if isGraph then classList_add viewEl ''vignette-radial'' w2
                else classList_add viewEl ''vignette-linear'' w2);
          w4 = (if \<not> isGraph \<and> truthy (get_prop (settings w3) ''forceReadable'')
                then (case editorEl (view leaf) of
                        Some e \<Rightarrow> classList_add e ''is-readable-line-width'' w3
                      | None \<Rightarrow> w3)
                else w3);
          w5 = classList_add viewEl ''animate'' w4
      in if truthy (get_prop (settings w5) ''showHeader'')
         then classList_add header ''animate'' w5
         else classList_add header ''hide'' w5)"

definition removeStyles :: "leaf \<Rightarrow> world \<Rightarrow> world" where
  "removeStyles leaf w0 =
     (let viewEl = contentEl (view leaf);
          header = headerEl (view leaf);
          isGraph = (viewType (view leaf) = ''graph'');
          w1 = (if isGraph then
                  (case controlsEl (view leaf) of
                     Some graphControls \<Rightarrow> classList_remove graphControls [''animate'', ''hide''] w0
                   | None \<Rightarrow> w0)
                else if \<not> readableLineLength w0 then
                  (case editorEl (view leaf) of
                     Some e \<Rightarrow> classList_remove e [''is-readable-line-width''] w0
                   | None \<Rightarrow> w0)
                else w0);
          w2 = classList_remove viewEl
                 [''vignette-linear'', ''vignette-radial'', ''animate'', ''noscroll''] w1
      in classList_remove header [''animate'', ''hide''] w2)"

subsection \<open>The toggle\<close>

text \<open>
  The closure assigned to \<^verbatim>\<open>containerEl.onfullscreenchange\<close>, for the leaf it captured.
\<close>

definition fullscreenchange_handler :: "leaf \<Rightarrow> world \<Rightarrow> world" where
  "fullscreenchange_handler leaf w =
     (if fullscreenElement w = None
      then (removeStyles leaf w)\<lparr>isInZenMode := False\<rparr>
      else w)"

definition set_onfullscreenchange :: "element \<Rightarrow> leaf \<Rightarrow> world \<Rightarrow> world" where
  "set_onfullscreenchange c leaf w =
     emit (SetOnfullscreenchange c) (w\<lparr>onfullscreenchange := (onfullscreenchange w)(c \<mapsto> leaf)\<rparr>)"

text \<open>
  \<^verbatim>\<open>fullscreenMode\<close>. A method call or a property assignment on a \<^verbatim>\<open>containerEl\<close> that is
  \<^verbatim>\<open>undefined\<close> throws a \<^verbatim>\<open>TypeError\<close>; what was done before it stays done.
\<close>

definition fullscreenMode :: "world \<Rightarrow> world \<times> outcome" where
  "fullscreenMode w0 =
     (let w = emit Enter_fullscreenMode w0 in
      case activeItemViewLeaf w of
        None \<Rightarrow> (w, Returned)
      | Some leaf \<Rightarrow>
          if viewType (view leaf) = ''empty'' then (w, Returned)
          else
            let w1 = setProperty ''--fadeIn-duration''
                       (toString w (get_prop (settings w) ''animationDuration'') @ ''s'') w;
                w2 = setProperty ''--vignette-opacity''
                       (toString w1 (get_prop (settings w1) ''vignetteOpacity'') @ ''%'') w1;
                w3 = setProperty ''--vignette-scale-linear''
                       (toString w2 (get_prop (settings w2) ''vignetteScaleLinear'') @ ''%'') w2;
                w4 = setProperty ''--vignette-scale-radial''
                       (toString w3 (get_prop (settings w3) ''vignetteScaleRadial'') @ ''%'') w3
            in
              if fullscreenElement w4 = None then
                (case containerEl leaf of
                   None \<Rightarrow> (w4, Threw TypeError)
                 | Some c \<Rightarrow>
                     (set_onfullscreenchange c leaf
                        ((addStyles leaf (requestFullscreen c w4))\<lparr>isInZenMode := True\<rparr>),
                      Returned))
              else
                (let w5 = (removeStyles leaf (exitFullscreen w4))\<lparr>isInZenMode := False\<rparr> in
                 case containerEl leaf of
                   None \<Rightarrow> (w5, Threw TypeError)
                 | Some c \<Rightarrow> (set_onfullscreenchange c leaf w5, Returned)))"

subsection \<open>The auto-zen trigger\<close>

definition handleEditorChange :: "world \<Rightarrow> world \<times> outcome" where
  "handleEditorChange w =
     (if \<not> truthy (get_prop (settings w) ''autoZenMode'') \<or> isInZenMode w then (w, Returned)
      else
        case activeLeaf w of
          None \<Rightarrow> (w, Returned)
        | Some al \<Rightarrow>
            if viewType (view al) = ''empty'' then (w, Returned)
            else
              (case Option.bind (activeEditor w) editor of
                 None \<Rightarrow> (w, Returned)
               | Some ed \<Rightarrow>
                   if 0 < length (trim (getValue ed)) then
                     (let (w', r) = fullscreenMode w in
                      case r of
                        Threw e \<Rightarrow> (w', Threw e)
                      | Returned \<Rightarrow> (w'\<lparr>isInZenMode := True\<rparr>, Returned))
                   else (w, Returned)))"

text \<open>
  The guard conditions of the auto-zen trigger, as the specification lists them: the auto-zen
  preference is enabled, the plugin is not in zen mode, an active view exists and is not of the
  empty type, and an active editor exists whose text is not empty after trimming.
\<close>

definition auto_zen_conditions :: "world \<Rightarrow> bool" where
  "auto_zen_conditions w \<longleftrightarrow>
     truthy (get_prop (settings w) ''autoZenMode'') \<and>
     \<not> isInZenMode w \<and>
     (case activeLeaf w of None \<Rightarrow> False | Some al \<Rightarrow> viewType (view al) \<noteq> ''empty'') \<and>
     (case activeEditor w of
        None \<Rightarrow> False
      | Some info \<Rightarrow> (case editor info of None \<Rightarrow> False | Some ed \<Rightarrow> trim (getValue ed) \<noteq> []))"

subsection \<open>The handlers of the plugin\<close>

text \<open>
  What the host can run: the command \<^verbatim>\<open>zenmode\<close> (bound to \<^verbatim>\<open>fullscreenMode\<close>), the
  \<^verbatim>\<open>editor-change\<close> event, a \<^verbatim>\<open>fullscreenchange\<close> event on an element, a change of a control
  of the settings tab, and the loading and saving of the preferences.
\<close>

datatype event =
    Command_zenmode
  | Editor_change
  | Fullscreenchange element
  | Setting_change string jsval
  | Load_settings
  | Save_settings

fun dispatch :: "event \<Rightarrow> world \<Rightarrow> world \<times> outcome" where
  "dispatch Command_zenmode w = fullscreenMode w"
| "dispatch Editor_change w = handleEditorChange w"
| "dispatch (Fullscreenchange e) w =
     (case onfullscreenchange w e of
        None \<Rightarrow> (w, Returned)
      | Some leaf \<Rightarrow> (fullscreenchange_handler leaf w, Returned))"
| "dispatch (Setting_change field v) w = (onChange field v w, Returned)"
| "dispatch Load_settings w = (loadSettings w, Returned)"
| "dispatch Save_settings w = (saveSettings w, Returned)"

text \<open>The effects a run from \<open>w\<close> to \<open>w'\<close> added to the trace.\<close>

definition new_effects :: "world \<Rightarrow> world \<Rightarrow> effect list" where
  "new_effects w w' = drop (length (trace w)) (trace w')"

text \<open>Two invocations of the toggle in succession; the state after the second.\<close>

definition toggle_twice :: "world \<Rightarrow> world" where
  "toggle_twice w = fst (fullscreenMode (fst (fullscreenMode w)))"

section \<open>Example states\<close>

text \<open>
  Concrete states on which the definitions are evaluated: a note in an editable markdown view
  (container 0, content 1, header 2, editing surface 3) and a runtime that prints the four
  default numbers.
\<close>

definition demo_numberToString :: "jsnumber \<Rightarrow> string" where
  "demo_numberToString n =
     (if n = Finite 2 then ''2''
      else if n = Finite 0.75 then ''0.75''
      else if n = Finite 20 then ''20''
      else if n = Finite 75 then ''75''
      else ''?'')"

definition note_view :: view where
  "note_view = \<lparr>viewType = ''markdown'', contentEl = 1, headerEl = 2,
                 controlsEl = None, editorEl = Some 3\<rparr>"

definition note_leaf :: leaf where
  "note_leaf = \<lparr>view = note_view, containerEl = Some 0\<rparr>"

definition fresh_world :: world where
  "fresh_world =
     \<lparr>settings = DEFAULT_SETTINGS, isInZenMode = False,
      activeLeaf = Some note_leaf, activeItemViewLeaf = Some note_leaf,
      activeEditor = Some \<lparr>editor = Some (Editor [0x68, 0x69])\<rparr>,
      readableLineLength = False, storedData = None,
      fullscreenElement = None, classes = (\<lambda>e. {}), rootStyle = Map.empty,
      onfullscreenchange = Map.empty, numberToString = demo_numberToString, trace = []\<rparr>"

definition stored_world :: world where
  "stored_world = fresh_world\<lparr>storedData := Some [(''vignetteOpacity'', JNum (Finite 0.3)), (''autoZenMode'', JBool True)]\<rparr>"

text \<open>
  A graph view (container 10, content 11, header 12, controls 13), and states derived from
  \<open>fresh_world\<close>: with the auto-zen preference on, with no view of type \<^verbatim>\<open>ItemView\<close> active,
  with another element (9) of the page already fullscreen, with the zen flag set although
  nothing is fullscreen, and with a leaf that has no container element.
\<close>

definition graph_view :: view where
  "graph_view = \<lparr>viewType = ''graph'', contentEl = 11, headerEl = 12,
                  controlsEl = Some 13, editorEl = None\<rparr>"

definition graph_leaf :: leaf where
  "graph_leaf = \<lparr>view = graph_view, containerEl = Some 10\<rparr>"

definition autozen_world :: world where
  "autozen_world =
     fresh_world\<lparr>settings := set_prop DEFAULT_SETTINGS ''autoZenMode'' (JBool True)\<rparr>"

definition no_item_view_world :: world where
  "no_item_view_world = autozen_world\<lparr>activeItemViewLeaf := None\<rparr>"

definition other_fullscreen_world :: world where
  "other_fullscreen_world = autozen_world\<lparr>fullscreenElement := Some 9\<rparr>"

definition diverged_world :: world where
  "diverged_world = fresh_world\<lparr>isInZenMode := True, readableLineLength := True\<rparr>"

definition no_container_world :: world where
  "no_container_world =
     fresh_world\<lparr>activeItemViewLeaf := Some (note_leaf\<lparr>containerEl := None\<rparr>)\<rparr>"

section \<open>Preferences: loading\<close>

lemma map_of_rev_distinct:
  "distinct (map fst xs) \<Longrightarrow> map_of (rev xs) = map_of xs"
  by (rule map_of_inject_set [THEN iffD2]) (simp_all add: rev_map [symmetric])

lemma foldl_set_prop:
  "map_of (foldl (\<lambda>t (k, v). set_prop t k v) target props) = map_of target ++ map_of (rev props)"
  by (induction props arbitrary: target)
     (auto simp: set_prop_def update_conv' map_add_def fun_eq_iff split: option.splits)

lemma assign_from_Some:
  "distinct (map fst props) \<Longrightarrow>
   map_of (assign_from target (Some props)) = map_of target ++ map_of props"
  by (simp add: assign_from_def foldl_set_prop map_of_rev_distinct)

lemma Object_assign_defaults: "Object_assign [] [Some DEFAULT_SETTINGS, None] = DEFAULT_SETTINGS"
  by (simp add: Object_assign_def assign_from_def DEFAULT_SETTINGS_def set_prop_def)

lemma get_prop_Object_assign:
  assumes "distinct (map fst d)"
  shows "get_prop (Object_assign [] [Some DEFAULT_SETTINGS, Some d]) k =
           (if k \<in> fst ` set d then get_prop d k else get_prop DEFAULT_SETTINGS k)"
proof -
  have "assign_from [] (Some DEFAULT_SETTINGS) = DEFAULT_SETTINGS"
    by (simp add: assign_from_def DEFAULT_SETTINGS_def set_prop_def)
  then have "map_of (Object_assign [] [Some DEFAULT_SETTINGS, Some d]) =
        map_of DEFAULT_SETTINGS ++ map_of d"
    using assms by (simp add: Object_assign_def assign_from_Some)
  then have m: "map_of (Object_assign [] [Some DEFAULT_SETTINGS, Some d]) k =
        (map_of DEFAULT_SETTINGS ++ map_of d) k"
    by simp
  show ?thesis
  proof (cases "map_of d k")
    case None
    then have "k \<notin> fst ` set d"
      by (simp add: map_of_eq_None_iff)
    with None m show ?thesis
      by (simp add: get_prop_def map_add_def)
  next
    case (Some v)
    then have "k \<in> fst ` set d"
      using map_of_eq_None_iff [of d k] by auto
    with Some m show ?thesis
      by (simp add: get_prop_def map_add_def)
  qed
qed

text \<open>
  C7. \<^verbatim>\<open>loadSettings\<close> with no stored data yields exactly the defaults, field by field
  (animationDuration 2, showHeader false, showScroll false, showGraphControls false,
  autoZenMode false, forceReadable true, vignetteOpacity 0.75, vignetteScaleLinear 20,
  vignetteScaleRadial 75). With a stored object (its property names distinct, as in every
  object), a property that is stored has the stored value and any other property has the
  value of the defaults.
\<close>

theorem loadSettings_defaults_overridden:
  "(storedData w = None \<longrightarrow>
      settings (loadSettings w) = DEFAULT_SETTINGS \<and>
      get_prop (settings (loadSettings w)) ''animationDuration'' = JNum (Finite 2) \<and>
      get_prop (settings (loadSettings w)) ''showHeader'' = JBool False \<and>
      get_prop (settings (loadSettings w)) ''showScroll'' = JBool False \<and>
      get_prop (settings (loadSettings w)) ''showGraphControls'' = JBool False \<and>
      get_prop (settings (loadSettings w)) ''autoZenMode'' = JBool False \<and>
      get_prop (settings (loadSettings w)) ''forceReadable'' = JBool True \<and>
      get_prop (settings (loadSettings w)) ''vignetteOpacity'' = JNum (Finite 0.75) \<and>
      get_prop (settings (loadSettings w)) ''vignetteScaleLinear'' = JNum (Finite 20) \<and>
      get_prop (settings (loadSettings w)) ''vignetteScaleRadial'' = JNum (Finite 75)) \<and>
   (\<forall>d. storedData w = Some d \<and> distinct (map fst d) \<longrightarrow>
      (\<forall>k. get_prop (settings (loadSettings w)) k =
             (if k \<in> fst ` set d then get_prop d k else get_prop DEFAULT_SETTINGS k)))"
proof (intro conjI impI allI)
  fix d k
  assume "storedData w = Some d \<and> distinct (map fst d)"
  then show "get_prop (settings (loadSettings w)) k =
             (if k \<in> fst ` set d then get_prop d k else get_prop DEFAULT_SETTINGS k)"
    by (simp add: loadSettings_def get_prop_Object_assign)
next
  assume "storedData w = None"
  then show "settings (loadSettings w) = DEFAULT_SETTINGS"
    by (simp add: loadSettings_def Object_assign_defaults)
qed (simp_all add: loadSettings_def Object_assign_defaults, simp_all add: get_prop_def DEFAULT_SETTINGS_def)

theorem loadSettings_defaults_overridden_witness:
  "storedData fresh_world = None \<and>
   get_prop (settings (loadSettings fresh_world)) ''vignetteOpacity'' = JNum (Finite 0.75) \<and>
   storedData stored_world = Some [(''vignetteOpacity'', JNum (Finite 0.3)), (''autoZenMode'', JBool True)] \<and>
   distinct (map fst [(''vignetteOpacity'', JNum (Finite 0.3)), (''autoZenMode'', JBool True)]) \<and>
   get_prop (settings (loadSettings stored_world)) ''vignetteOpacity'' = JNum (Finite 0.3) \<and>
   get_prop (settings (loadSettings stored_world)) ''autoZenMode'' = JBool True \<and>
   get_prop (settings (loadSettings stored_world)) ''forceReadable'' = JBool True"
  using loadSettings_defaults_overridden [of fresh_world]
        loadSettings_defaults_overridden [of stored_world]
  by (simp add: fresh_world_def stored_world_def get_prop_def DEFAULT_SETTINGS_def)

section \<open>What each operation changes\<close>

text \<open>
  Every primitive changes the fields it is about and appends its call to the trace; the other
  fields are as before. \<^verbatim>\<open>addStyles\<close> and \<^verbatim>\<open>removeStyles\<close> change the classes and the trace only.
\<close>

lemma emit_fields [simp]:
  "settings (emit ef w) = settings w"
  "isInZenMode (emit ef w) = isInZenMode w"
  "activeLeaf (emit ef w) = activeLeaf w"
  "activeItemViewLeaf (emit ef w) = activeItemViewLeaf w"
  "activeEditor (emit ef w) = activeEditor w"
  "readableLineLength (emit ef w) = readableLineLength w"
  "storedData (emit ef w) = storedData w"
  "fullscreenElement (emit ef w) = fullscreenElement w"
  "classes (emit ef w) = classes w"
  "rootStyle (emit ef w) = rootStyle w"
  "onfullscreenchange (emit ef w) = onfullscreenchange w"
  "numberToString (emit ef w) = numberToString w"
  "trace (emit ef w) = trace w @ [ef]"
  by (simp_all add: emit_def)

lemma toString_emit [simp]: "toString (emit ef w) x = toString w x"
  by (cases x) simp_all

lemma setProperty_fields [simp]:
  "settings (setProperty n v w) = settings w"
  "isInZenMode (setProperty n v w) = isInZenMode w"
  "activeLeaf (setProperty n v w) = activeLeaf w"
  "activeItemViewLeaf (setProperty n v w) = activeItemViewLeaf w"
  "activeEditor (setProperty n v w) = activeEditor w"
  "readableLineLength (setProperty n v w) = readableLineLength w"
  "storedData (setProperty n v w) = storedData w"
  "fullscreenElement (setProperty n v w) = fullscreenElement w"
  "classes (setProperty n v w) = classes w"
  "rootStyle (setProperty n v w) = (rootStyle w)(n \<mapsto> v)"
  "onfullscreenchange (setProperty n v w) = onfullscreenchange w"
  "numberToString (setProperty n v w) = numberToString w"
  "trace (setProperty n v w) = trace w @ [SetProperty n v]"
  by (simp_all add: setProperty_def emit_def)

lemma toString_setProperty [simp]: "toString (setProperty n v w) x = toString w x"
  by (cases x) simp_all

lemma classList_add_fields [simp]:
  "settings (classList_add e c w) = settings w"
  "isInZenMode (classList_add e c w) = isInZenMode w"
  "activeLeaf (classList_add e c w) = activeLeaf w"
  "activeItemViewLeaf (classList_add e c w) = activeItemViewLeaf w"
  "activeEditor (classList_add e c w) = activeEditor w"
  "readableLineLength (classList_add e c w) = readableLineLength w"
  "storedData (classList_add e c w) = storedData w"
  "fullscreenElement (classList_add e c w) = fullscreenElement w"
  "classes (classList_add e c w) = (classes w)(e := insert c (classes w e))"
  "rootStyle (classList_add e c w) = rootStyle w"
  "onfullscreenchange (classList_add e c w) = onfullscreenchange w"
  "numberToString (classList_add e c w) = numberToString w"
  "trace (classList_add e c w) = trace w @ [ClassAdd e c]"
  by (simp_all add: classList_add_def emit_def)

lemma classList_remove_fields [simp]:
  "settings (classList_remove e cs w) = settings w"
  "isInZenMode (classList_remove e cs w) = isInZenMode w"
  "activeLeaf (classList_remove e cs w) = activeLeaf w"
  "activeItemViewLeaf (classList_remove e cs w) = activeItemViewLeaf w"
  "activeEditor (classList_remove e cs w) = activeEditor w"
  "readableLineLength (classList_remove e cs w) = readableLineLength w"
  "storedData (classList_remove e cs w) = storedData w"
  "fullscreenElement (classList_remove e cs w) = fullscreenElement w"
  "classes (classList_remove e cs w) = (classes w)(e := classes w e - set cs)"
  "rootStyle (classList_remove e cs w) = rootStyle w"
  "onfullscreenchange (classList_remove e cs w) = onfullscreenchange w"
  "numberToString (classList_remove e cs w) = numberToString w"
  "trace (classList_remove e cs w) = trace w @ map (ClassRemove e) cs"
  by (simp_all add: classList_remove_def emit_def)

lemma requestFullscreen_fields [simp]:
  "settings (requestFullscreen c w) = settings w"
  "isInZenMode (requestFullscreen c w) = isInZenMode w"
  "activeLeaf (requestFullscreen c w) = activeLeaf w"
  "activeItemViewLeaf (requestFullscreen c w) = activeItemViewLeaf w"
  "activeEditor (requestFullscreen c w) = activeEditor w"
  "readableLineLength (requestFullscreen c w) = readableLineLength w"
  "storedData (requestFullscreen c w) = storedData w"
  "fullscreenElement (requestFullscreen c w) = Some c"
  "classes (requestFullscreen c w) = classes w"
  "rootStyle (requestFullscreen c w) = rootStyle w"
  "onfullscreenchange (requestFullscreen c w) = onfullscreenchange w"
  "numberToString (requestFullscreen c w) = numberToString w"
  "trace (requestFullscreen c w) = trace w @ [RequestFullscreen c]"
  by (simp_all add: requestFullscreen_def emit_def)

lemma exitFullscreen_fields [simp]:
  "settings (exitFullscreen w) = settings w"
  "isInZenMode (exitFullscreen w) = isInZenMode w"
  "activeLeaf (exitFullscreen w) = activeLeaf w"
  "activeItemViewLeaf (exitFullscreen w) = activeItemViewLeaf w"
  "activeEditor (exitFullscreen w) = activeEditor w"
  "readableLineLength (exitFullscreen w) = readableLineLength w"
  "storedData (exitFullscreen w) = storedData w"
  "fullscreenElement (exitFullscreen w) = None"
  "classes (exitFullscreen w) = classes w"
  "rootStyle (exitFullscreen w) = rootStyle w"
  "onfullscreenchange (exitFullscreen w) = onfullscreenchange w"
  "numberToString (exitFullscreen w) = numberToString w"
  "trace (exitFullscreen w) = trace w @ [ExitFullscreen]"
  by (simp_all add: exitFullscreen_def emit_def)

lemma set_onfullscreenchange_fields [simp]:
  "settings (set_onfullscreenchange c l w) = settings w"
  "isInZenMode (set_onfullscreenchange c l w) = isInZenMode w"
  "activeLeaf (set_onfullscreenchange c l w) = activeLeaf w"
  "activeItemViewLeaf (set_onfullscreenchange c l w) = activeItemViewLeaf w"
  "activeEditor (set_onfullscreenchange c l w) = activeEditor w"
  "readableLineLength (set_onfullscreenchange c l w) = readableLineLength w"
  "storedData (set_onfullscreenchange c l w) = storedData w"
  "fullscreenElement (set_onfullscreenchange c l w) = fullscreenElement w"
  "classes (set_onfullscreenchange c l w) = classes w"
  "rootStyle (set_onfullscreenchange c l w) = rootStyle w"
  "onfullscreenchange (set_onfullscreenchange c l w) = (onfullscreenchange w)(c \<mapsto> l)"
  "numberToString (set_onfullscreenchange c l w) = numberToString w"
  "trace (set_onfullscreenchange c l w) = trace w @ [SetOnfullscreenchange c]"
  by (simp_all add: set_onfullscreenchange_def emit_def)

lemma addStyles_fields [simp]:
  "settings (addStyles l w) = settings w"
  "isInZenMode (addStyles l w) = isInZenMode w"
  "activeLeaf (addStyles l w) = activeLeaf w"
  "activeItemViewLeaf (addStyles l w) = activeItemViewLeaf w"
  "activeEditor (addStyles l w) = activeEditor w"
  "readableLineLength (addStyles l w) = readableLineLength w"
  "storedData (addStyles l w) = storedData w"
  "fullscreenElement (addStyles l w) = fullscreenElement w"
  "rootStyle (addStyles l w) = rootStyle w"
  "onfullscreenchange (addStyles l w) = onfullscreenchange w"
  "numberToString (addStyles l w) = numberToString w"
  by (cases "controlsEl (view l)"; cases "editorEl (view l)"; simp add: addStyles_def Let_def)+

lemma removeStyles_fields [simp]:
  "settings (removeStyles l w) = settings w"
  "isInZenMode (removeStyles l w) = isInZenMode w"
  "activeLeaf (removeStyles l w) = activeLeaf w"
  "activeItemViewLeaf (removeStyles l w) = activeItemViewLeaf w"
  "activeEditor (removeStyles l w) = activeEditor w"
  "readableLineLength (removeStyles l w) = readableLineLength w"
  "storedData (removeStyles l w) = storedData w"
  "fullscreenElement (removeStyles l w) = fullscreenElement w"
  "rootStyle (removeStyles l w) = rootStyle w"
  "onfullscreenchange (removeStyles l w) = onfullscreenchange w"
  "numberToString (removeStyles l w) = numberToString w"
  by (cases "controlsEl (view l)"; cases "editorEl (view l)"; simp add: removeStyles_def Let_def)+

section \<open>The calls and the classes of the two style operations\<close>

lemma addStyles_trace:
  "trace (addStyles l w) = trace w @
     (if \<not> truthy (get_prop (settings w) ''showScroll'')
      then [ClassAdd (contentEl (view l)) ''noscroll''] else []) @
     (if viewType (view l) = ''graph'' \<and> \<not> truthy (get_prop (settings w) ''showGraphControls'')
      then (case controlsEl (view l) of Some g \<Rightarrow> [ClassAdd g ''hide''] | None \<Rightarrow> []) else []) @
     [ClassAdd (contentEl (view l))
        (if viewType (view l) = ''graph'' then ''vignette-radial'' else ''vignette-linear'')] @
     (if viewType (view l) \<noteq> ''graph'' \<and> truthy (get_prop (settings w) ''forceReadable'')
      then (case editorEl (view l) of
              Some e \<Rightarrow> [ClassAdd e ''is-readable-line-width''] | None \<Rightarrow> []) else []) @
     [ClassAdd (contentEl (view l)) ''animate'',
      ClassAdd (headerEl (view l))
        (if truthy (get_prop (settings w) ''showHeader'') then ''animate'' else ''hide'')]"
  by (cases "controlsEl (view l)"; cases "editorEl (view l)")
     (simp_all add: addStyles_def Let_def)

lemma removeStyles_trace:
  "trace (removeStyles l w) = trace w @
     (if viewType (view l) = ''graph''
      then (case controlsEl (view l) of
              Some g \<Rightarrow> [ClassRemove g ''animate'', ClassRemove g ''hide''] | None \<Rightarrow> [])
      else if \<not> readableLineLength w
      then (case editorEl (view l) of
              Some e \<Rightarrow> [ClassRemove e ''is-readable-line-width''] | None \<Rightarrow> [])
      else []) @
     [ClassRemove (contentEl (view l)) ''vignette-linear'',
      ClassRemove (contentEl (view l)) ''vignette-radial'',
      ClassRemove (contentEl (view l)) ''animate'',
      ClassRemove (contentEl (view l)) ''noscroll'',
      ClassRemove (headerEl (view l)) ''animate'',
      ClassRemove (headerEl (view l)) ''hide'']"
  by (cases "controlsEl (view l)"; cases "editorEl (view l)")
     (simp_all add: removeStyles_def Let_def)

lemma addStyles_classes:
  "c \<in> classes (addStyles l w) e \<longleftrightarrow>
     c \<in> classes w e \<or>
     (e = contentEl (view l) \<and>
        (c = ''noscroll'' \<and> \<not> truthy (get_prop (settings w) ''showScroll'') \<or>
         c = (if viewType (view l) = ''graph'' then ''vignette-radial'' else ''vignette-linear'') \<or>
         c = ''animate'')) \<or>
     (controlsEl (view l) = Some e \<and> c = ''hide'' \<and> viewType (view l) = ''graph'' \<and>
        \<not> truthy (get_prop (settings w) ''showGraphControls'')) \<or>
     (editorEl (view l) = Some e \<and> c = ''is-readable-line-width'' \<and>
        viewType (view l) \<noteq> ''graph'' \<and> truthy (get_prop (settings w) ''forceReadable'')) \<or>
     (e = headerEl (view l) \<and>
        c = (if truthy (get_prop (settings w) ''showHeader'') then ''animate'' else ''hide''))"
proof (cases "viewType (view l) = ''graph''")
  case True
  then show ?thesis
    by (cases "controlsEl (view l)") (auto simp add: addStyles_def Let_def)
next
  case False
  then show ?thesis
    by (cases "editorEl (view l)") (auto simp add: addStyles_def Let_def)
qed

lemma removeStyles_classes:
  "c \<in> classes (removeStyles l w) e \<longleftrightarrow>
     c \<in> classes w e \<and>
     \<not> (e = contentEl (view l) \<and>
          c \<in> {''vignette-linear'', ''vignette-radial'', ''animate'', ''noscroll''}) \<and>
     \<not> (e = headerEl (view l) \<and> c \<in> {''animate'', ''hide''}) \<and>
     \<not> (viewType (view l) = ''graph'' \<and> controlsEl (view l) = Some e \<and>
          c \<in> {''animate'', ''hide''}) \<and>
     \<not> (viewType (view l) \<noteq> ''graph'' \<and> \<not> readableLineLength w \<and>
          editorEl (view l) = Some e \<and> c = ''is-readable-line-width'')"
proof (cases "viewType (view l) = ''graph''")
  case True
  then show ?thesis
    by (cases "controlsEl (view l)") (auto simp add: removeStyles_def Let_def)
next
  case False
  then show ?thesis
    by (cases "editorEl (view l)") (auto simp add: removeStyles_def Let_def)
qed

lemma addStyles_classes_cong:
  "classes w' = classes w \<Longrightarrow> settings w' = settings w \<Longrightarrow>
   classes (addStyles l w') = classes (addStyles l w)"
  by (intro ext set_eqI) (simp add: addStyles_classes)

lemma removeStyles_classes_cong:
  "classes w' = classes w \<Longrightarrow> readableLineLength w' = readableLineLength w \<Longrightarrow>
   classes (removeStyles l w') = classes (removeStyles l w)"
  by (intro ext set_eqI) (simp add: removeStyles_classes)

section \<open>The branches of the toggle\<close>

lemma addStyles_effects_cong:
  "settings w' = settings w \<Longrightarrow> new_effects w' (addStyles l w') = new_effects w (addStyles l w)"
  by (simp add: new_effects_def addStyles_trace)

lemma removeStyles_effects_cong:
  "readableLineLength w' = readableLineLength w \<Longrightarrow>
   new_effects w' (removeStyles l w') = new_effects w (removeStyles l w)"
  by (simp add: new_effects_def removeStyles_trace)

lemma addStyles_trace_new: "trace (addStyles l w) = trace w @ new_effects w (addStyles l w)"
  by (simp add: new_effects_def addStyles_trace)

lemma removeStyles_trace_new: "trace (removeStyles l w) = trace w @ new_effects w (removeStyles l w)"
  by (simp add: new_effects_def removeStyles_trace)

lemma addStyles_effects_ClassAdd:
  assumes "x \<in> set (new_effects w (addStyles l w))"
  shows "\<exists>e c. x = ClassAdd e c"
proof -
  have "x \<in> set (drop (length (trace w)) (trace (addStyles l w)))"
    using assms by (simp add: new_effects_def)
  then show ?thesis
    by (cases "controlsEl (view l)"; cases "editorEl (view l)";
        cases "viewType (view l) = ''graph''";
        cases "truthy (get_prop (settings w) ''showScroll'')";
        cases "truthy (get_prop (settings w) ''showGraphControls'')";
        cases "truthy (get_prop (settings w) ''forceReadable'')";
        auto simp add: addStyles_trace)
qed

lemma removeStyles_effects_ClassRemove:
  assumes "x \<in> set (new_effects w (removeStyles l w))"
  shows "\<exists>e c. x = ClassRemove e c"
proof -
  have "x \<in> set (drop (length (trace w)) (trace (removeStyles l w)))"
    using assms by (simp add: new_effects_def)
  then show ?thesis
    by (cases "controlsEl (view l)"; cases "editorEl (view l)";
        cases "viewType (view l) = ''graph''"; cases "readableLineLength w";
        auto simp add: removeStyles_trace)
qed

text \<open>
  With a target, the toggle first writes the four style variables (\<open>w4\<close> is the state after
  these writes) and then branches on the fullscreen element.
\<close>

lemma fullscreenMode_target:
  assumes "activeItemViewLeaf w = Some l" and "viewType (view l) \<noteq> ''empty''"
  shows "fullscreenMode w =
     (let w4 = w\<lparr>rootStyle :=
              (rootStyle w)
                (''--fadeIn-duration'' \<mapsto>
                   toString w (get_prop (settings w) ''animationDuration'') @ ''s'',
                 ''--vignette-opacity'' \<mapsto>
                   toString w (get_prop (settings w) ''vignetteOpacity'') @ ''%'',
                 ''--vignette-scale-linear'' \<mapsto>
                   toString w (get_prop (settings w) ''vignetteScaleLinear'') @ ''%'',
                 ''--vignette-scale-radial'' \<mapsto>
                   toString w (get_prop (settings w) ''vignetteScaleRadial'') @ ''%''),
             trace := trace w @
               [Enter_fullscreenMode,
                SetProperty ''--fadeIn-duration''
                  (toString w (get_prop (settings w) ''animationDuration'') @ ''s''),
                SetProperty ''--vignette-opacity''
                  (toString w (get_prop (settings w) ''vignetteOpacity'') @ ''%''),
                SetProperty ''--vignette-scale-linear''
                  (toString w (get_prop (settings w) ''vignetteScaleLinear'') @ ''%''),
                SetProperty ''--vignette-scale-radial''
                  (toString w (get_prop (settings w) ''vignetteScaleRadial'') @ ''%'')]\<rparr> in
          (if fullscreenElement w = None then
             (case containerEl l of
                None \<Rightarrow> (w4, Threw TypeError)
              | Some c \<Rightarrow>
                  (set_onfullscreenchange c l
                     ((addStyles l (requestFullscreen c w4))\<lparr>isInZenMode := True\<rparr>),
                   Returned))
           else
             (case containerEl l of
                None \<Rightarrow> ((removeStyles l (exitFullscreen w4))\<lparr>isInZenMode := False\<rparr>,
                         Threw TypeError)
              | Some c \<Rightarrow>
                  (set_onfullscreenchange c l
                     ((removeStyles l (exitFullscreen w4))\<lparr>isInZenMode := False\<rparr>),
                   Returned))))"
proof -
  let ?w0 = "emit Enter_fullscreenMode w"
  let ?w1 = "setProperty ''--fadeIn-duration''
               (toString w (get_prop (settings w) ''animationDuration'') @ ''s'') ?w0"
  let ?w2 = "setProperty ''--vignette-opacity''
               (toString w (get_prop (settings w) ''vignetteOpacity'') @ ''%'') ?w1"
  let ?w3 = "setProperty ''--vignette-scale-linear''
               (toString w (get_prop (settings w) ''vignetteScaleLinear'') @ ''%'') ?w2"
  let ?w4 = "setProperty ''--vignette-scale-radial''
               (toString w (get_prop (settings w) ''vignetteScaleRadial'') @ ''%'') ?w3"
  have fm: "fullscreenMode w =
          (if fullscreenElement w = None then
             (case containerEl l of
                None \<Rightarrow> (?w4, Threw TypeError)
              | Some c \<Rightarrow>
                  (set_onfullscreenchange c l
                     ((addStyles l (requestFullscreen c ?w4))\<lparr>isInZenMode := True\<rparr>),
                   Returned))
           else
             (case containerEl l of
                None \<Rightarrow> ((removeStyles l (exitFullscreen ?w4))\<lparr>isInZenMode := False\<rparr>,
                         Threw TypeError)
              | Some c \<Rightarrow>
                  (set_onfullscreenchange c l
                     ((removeStyles l (exitFullscreen ?w4))\<lparr>isInZenMode := False\<rparr>),
                   Returned)))"
    using assms by (cases "containerEl l") (simp_all add: fullscreenMode_def Let_def)
  have "?w4 = w\<lparr>rootStyle :=
              (rootStyle w)
                (''--fadeIn-duration'' \<mapsto>
                   toString w (get_prop (settings w) ''animationDuration'') @ ''s'',
                 ''--vignette-opacity'' \<mapsto>
                   toString w (get_prop (settings w) ''vignetteOpacity'') @ ''%'',
                 ''--vignette-scale-linear'' \<mapsto>
                   toString w (get_prop (settings w) ''vignetteScaleLinear'') @ ''%'',
                 ''--vignette-scale-radial'' \<mapsto>
                   toString w (get_prop (settings w) ''vignetteScaleRadial'') @ ''%''),
             trace := trace w @
               [Enter_fullscreenMode,
                SetProperty ''--fadeIn-duration''
                  (toString w (get_prop (settings w) ''animationDuration'') @ ''s''),
                SetProperty ''--vignette-opacity''
                  (toString w (get_prop (settings w) ''vignetteOpacity'') @ ''%''),
                SetProperty ''--vignette-scale-linear''
                  (toString w (get_prop (settings w) ''vignetteScaleLinear'') @ ''%''),
                SetProperty ''--vignette-scale-radial''
                  (toString w (get_prop (settings w) ''vignetteScaleRadial'') @ ''%'')]\<rparr>"
    by (simp add: setProperty_def emit_def)
  with fm show ?thesis
    by (simp only: Let_def)
qed

lemma fullscreenMode_enter:
  assumes "activeItemViewLeaf w = Some l" and "viewType (view l) \<noteq> ''empty''"
    and "containerEl l = Some c" and "fullscreenElement w = None"
  shows "snd (fullscreenMode w) = Returned"
    and "isInZenMode (fst (fullscreenMode w)) = True"
    and "fullscreenElement (fst (fullscreenMode w)) = Some c"
    and "settings (fst (fullscreenMode w)) = settings w"
    and "activeItemViewLeaf (fst (fullscreenMode w)) = activeItemViewLeaf w"
    and "readableLineLength (fst (fullscreenMode w)) = readableLineLength w"
    and "onfullscreenchange (fst (fullscreenMode w)) = (onfullscreenchange w)(c \<mapsto> l)"
    and "classes (fst (fullscreenMode w)) = classes (addStyles l w)"
    and "drop 5 (new_effects w (fst (fullscreenMode w))) =
           RequestFullscreen c # new_effects w (addStyles l w) @ [SetOnfullscreenchange c]"
proof -
  note fm = fullscreenMode_target [OF assms(1,2)]
  show "snd (fullscreenMode w) = Returned"
    "isInZenMode (fst (fullscreenMode w)) = True"
    "fullscreenElement (fst (fullscreenMode w)) = Some c"
    "settings (fst (fullscreenMode w)) = settings w"
    "activeItemViewLeaf (fst (fullscreenMode w)) = activeItemViewLeaf w"
    "readableLineLength (fst (fullscreenMode w)) = readableLineLength w"
    "onfullscreenchange (fst (fullscreenMode w)) = (onfullscreenchange w)(c \<mapsto> l)"
    using assms(3,4) by (simp_all add: fm Let_def)
  show "classes (fst (fullscreenMode w)) = classes (addStyles l w)"
    using assms(3,4)
    by (simp add: fm Let_def) (rule addStyles_classes_cong; simp)
  define r where "r = requestFullscreen c
     (w\<lparr>rootStyle :=
              (rootStyle w)
                (''--fadeIn-duration'' \<mapsto>
                   toString w (get_prop (settings w) ''animationDuration'') @ ''s'',
                 ''--vignette-opacity'' \<mapsto>
                   toString w (get_prop (settings w) ''vignetteOpacity'') @ ''%'',
                 ''--vignette-scale-linear'' \<mapsto>
                   toString w (get_prop (settings w) ''vignetteScaleLinear'') @ ''%'',
                 ''--vignette-scale-radial'' \<mapsto>
                   toString w (get_prop (settings w) ''vignetteScaleRadial'') @ ''%''),
             trace := trace w @
               [Enter_fullscreenMode,
                SetProperty ''--fadeIn-duration''
                  (toString w (get_prop (settings w) ''animationDuration'') @ ''s''),
                SetProperty ''--vignette-opacity''
                  (toString w (get_prop (settings w) ''vignetteOpacity'') @ ''%''),
                SetProperty ''--vignette-scale-linear''
                  (toString w (get_prop (settings w) ''vignetteScaleLinear'') @ ''%''),
                SetProperty ''--vignette-scale-radial''
                  (toString w (get_prop (settings w) ''vignetteScaleRadial'') @ ''%'')]\<rparr>)"
  have "new_effects r (addStyles l r) = new_effects w (addStyles l w)"
    by (rule addStyles_effects_cong) (simp add: r_def)
  then have "trace (addStyles l r) = trace r @ new_effects w (addStyles l w)"
    using addStyles_trace_new [of l r] by simp
  moreover have "trace (fst (fullscreenMode w)) = trace (addStyles l r) @ [SetOnfullscreenchange c]"
    using assms(3,4) by (simp add: fm Let_def r_def)
  ultimately show "drop 5 (new_effects w (fst (fullscreenMode w))) =
           RequestFullscreen c # new_effects w (addStyles l w) @ [SetOnfullscreenchange c]"
    by (simp add: new_effects_def r_def)
qed

lemma fullscreenMode_exit:
  assumes "activeItemViewLeaf w = Some l" and "viewType (view l) \<noteq> ''empty''"
    and "containerEl l = Some c" and "fullscreenElement w = Some f"
  shows "snd (fullscreenMode w) = Returned"
    and "isInZenMode (fst (fullscreenMode w)) = False"
    and "fullscreenElement (fst (fullscreenMode w)) = None"
    and "settings (fst (fullscreenMode w)) = settings w"
    and "activeItemViewLeaf (fst (fullscreenMode w)) = activeItemViewLeaf w"
    and "readableLineLength (fst (fullscreenMode w)) = readableLineLength w"
    and "onfullscreenchange (fst (fullscreenMode w)) = (onfullscreenchange w)(c \<mapsto> l)"
    and "classes (fst (fullscreenMode w)) = classes (removeStyles l w)"
    and "drop 5 (new_effects w (fst (fullscreenMode w))) =
           ExitFullscreen # new_effects w (removeStyles l w) @ [SetOnfullscreenchange c]"
proof -
  note fm = fullscreenMode_target [OF assms(1,2)]
  show "snd (fullscreenMode w) = Returned"
    "isInZenMode (fst (fullscreenMode w)) = False"
    "fullscreenElement (fst (fullscreenMode w)) = None"
    "settings (fst (fullscreenMode w)) = settings w"
    "activeItemViewLeaf (fst (fullscreenMode w)) = activeItemViewLeaf w"
    "readableLineLength (fst (fullscreenMode w)) = readableLineLength w"
    "onfullscreenchange (fst (fullscreenMode w)) = (onfullscreenchange w)(c \<mapsto> l)"
    using assms(3,4) by (simp_all add: fm Let_def)
  show "classes (fst (fullscreenMode w)) = classes (removeStyles l w)"
    using assms(3,4)
    by (simp add: fm Let_def) (rule removeStyles_classes_cong; simp)
  define r where "r = exitFullscreen
     (w\<lparr>rootStyle :=
              (rootStyle w)
                (''--fadeIn-duration'' \<mapsto>
                   toString w (get_prop (settings w) ''animationDuration'') @ ''s'',
                 ''--vignette-opacity'' \<mapsto>
                   toString w (get_prop (settings w) ''vignetteOpacity'') @ ''%'',
                 ''--vignette-scale-linear'' \<mapsto>
                   toString w (get_prop (settings w) ''vignetteScaleLinear'') @ ''%'',
                 ''--vignette-scale-radial'' \<mapsto>
                   toString w (get_prop (settings w) ''vignetteScaleRadial'') @ ''%''),
             trace := trace w @
               [Enter_fullscreenMode,
                SetProperty ''--fadeIn-duration''
                  (toString w (get_prop (settings w) ''animationDuration'') @ ''s''),
                SetProperty ''--vignette-opacity''
                  (toString w (get_prop (settings w) ''vignetteOpacity'') @ ''%''),
                SetProperty ''--vignette-scale-linear''
                  (toString w (get_prop (settings w) ''vignetteScaleLinear'') @ ''%''),
                SetProperty ''--vignette-scale-radial''
                  (toString w (get_prop (settings w) ''vignetteScaleRadial'') @ ''%'')]\<rparr>)"
  have "new_effects r (removeStyles l r) = new_effects w (removeStyles l w)"
    by (rule removeStyles_effects_cong) (simp add: r_def)
  then have "trace (removeStyles l r) = trace r @ new_effects w (removeStyles l w)"
    using removeStyles_trace_new [of l r] by simp
  moreover have "trace (fst (fullscreenMode w)) = trace (removeStyles l r) @ [SetOnfullscreenchange c]"
    using assms(3,4) by (simp add: fm Let_def r_def)
  ultimately show "drop 5 (new_effects w (fst (fullscreenMode w))) =
           ExitFullscreen # new_effects w (removeStyles l w) @ [SetOnfullscreenchange c]"
    by (simp add: new_effects_def r_def)
qed

lemma fullscreenMode_no_container_enter:
  assumes "activeItemViewLeaf w = Some l" and "viewType (view l) \<noteq> ''empty''"
    and "containerEl l = None" and "fullscreenElement w = None"
  shows "snd (fullscreenMode w) = Threw TypeError"
    and "isInZenMode (fst (fullscreenMode w)) = isInZenMode w"
    and "fullscreenElement (fst (fullscreenMode w)) = None"
    and "settings (fst (fullscreenMode w)) = settings w"
    and "activeItemViewLeaf (fst (fullscreenMode w)) = activeItemViewLeaf w"
    and "readableLineLength (fst (fullscreenMode w)) = readableLineLength w"
    and "onfullscreenchange (fst (fullscreenMode w)) = onfullscreenchange w"
    and "classes (fst (fullscreenMode w)) = classes w"
    and "drop 5 (new_effects w (fst (fullscreenMode w))) =
           []"
proof -
  note fm = fullscreenMode_target [OF assms(1,2)]
  show "snd (fullscreenMode w) = Threw TypeError"
    "isInZenMode (fst (fullscreenMode w)) = isInZenMode w"
    "fullscreenElement (fst (fullscreenMode w)) = None"
    "settings (fst (fullscreenMode w)) = settings w"
    "activeItemViewLeaf (fst (fullscreenMode w)) = activeItemViewLeaf w"
    "readableLineLength (fst (fullscreenMode w)) = readableLineLength w"
    "onfullscreenchange (fst (fullscreenMode w)) = onfullscreenchange w"
    using assms(3,4) by (simp_all add: fm Let_def)
  show "classes (fst (fullscreenMode w)) = classes w"
    using assms(3,4) by (simp add: fm Let_def)
  show "drop 5 (new_effects w (fst (fullscreenMode w))) =
           []"
    using assms(3,4) by (simp add: fm Let_def new_effects_def)
qed

lemma fullscreenMode_no_container_exit:
  assumes "activeItemViewLeaf w = Some l" and "viewType (view l) \<noteq> ''empty''"
    and "containerEl l = None" and "fullscreenElement w = Some f"
  shows "snd (fullscreenMode w) = Threw TypeError"
    and "isInZenMode (fst (fullscreenMode w)) = False"
    and "fullscreenElement (fst (fullscreenMode w)) = None"
    and "settings (fst (fullscreenMode w)) = settings w"
    and "activeItemViewLeaf (fst (fullscreenMode w)) = activeItemViewLeaf w"
    and "readableLineLength (fst (fullscreenMode w)) = readableLineLength w"
    and "onfullscreenchange (fst (fullscreenMode w)) = onfullscreenchange w"
    and "classes (fst (fullscreenMode w)) = classes (removeStyles l w)"
    and "drop 5 (new_effects w (fst (fullscreenMode w))) =
           ExitFullscreen # new_effects w (removeStyles l w)"
proof -
  note fm = fullscreenMode_target [OF assms(1,2)]
  show "snd (fullscreenMode w) = Threw TypeError"
    "isInZenMode (fst (fullscreenMode w)) = False"
    "fullscreenElement (fst (fullscreenMode w)) = None"
    "settings (fst (fullscreenMode w)) = settings w"
    "activeItemViewLeaf (fst (fullscreenMode w)) = activeItemViewLeaf w"
    "readableLineLength (fst (fullscreenMode w)) = readableLineLength w"
    "onfullscreenchange (fst (fullscreenMode w)) = onfullscreenchange w"
    using assms(3,4) by (simp_all add: fm Let_def)
  show "classes (fst (fullscreenMode w)) = classes (removeStyles l w)"
    using assms(3,4)
    by (simp add: fm Let_def) (rule removeStyles_classes_cong; simp)
  define r where "r = exitFullscreen
     (w\<lparr>rootStyle :=
              (rootStyle w)
                (''--fadeIn-duration'' \<mapsto>
                   toString w (get_prop (settings w) ''animationDuration'') @ ''s'',
                 ''--vignette-opacity'' \<mapsto>
                   toString w (get_prop (settings w) ''vignetteOpacity'') @ ''%'',
                 ''--vignette-scale-linear'' \<mapsto>
                   toString w (get_prop (settings w) ''vignetteScaleLinear'') @ ''%'',
                 ''--vignette-scale-radial'' \<mapsto>
                   toString w (get_prop (settings w) ''vignetteScaleRadial'') @ ''%''),
             trace := trace w @
               [Enter_fullscreenMode,
                SetProperty ''--fadeIn-duration''
                  (toString w (get_prop (settings w) ''animationDuration'') @ ''s''),
                SetProperty ''--vignette-opacity''
                  (toString w (get_prop (settings w) ''vignetteOpacity'') @ ''%''),
                SetProperty ''--vignette-scale-linear''
                  (toString w (get_prop (settings w) ''vignetteScaleLinear'') @ ''%''),
                SetProperty ''--vignette-scale-radial''
                  (toString w (get_prop (settings w) ''vignetteScaleRadial'') @ ''%'')]\<rparr>)"
  have "new_effects r (removeStyles l r) = new_effects w (removeStyles l w)"
    by (rule removeStyles_effects_cong) (simp add: r_def)
  then have "trace (removeStyles l r) = trace r @ new_effects w (removeStyles l w)"
    using removeStyles_trace_new [of l r] by simp
  moreover have "trace (fst (fullscreenMode w)) = trace (removeStyles l r)"
    using assms(3,4) by (simp add: fm Let_def r_def)
  ultimately show "drop 5 (new_effects w (fst (fullscreenMode w))) =
           ExitFullscreen # new_effects w (removeStyles l w)"
    by (simp add: new_effects_def r_def)
qed

section \<open>The effects of the toggle\<close>

lemma fullscreenMode_no_target:
  assumes "activeItemViewLeaf w = None \<or>
           (\<exists>l. activeItemViewLeaf w = Some l \<and> viewType (view l) = ''empty'')"
  shows "fullscreenMode w = (w\<lparr>trace := trace w @ [Enter_fullscreenMode]\<rparr>, Returned)"
  using assms by (auto simp: fullscreenMode_def emit_def)

lemma fullscreenMode_first_effects:
  assumes "activeItemViewLeaf w = Some l" and "viewType (view l) \<noteq> ''empty''"
  shows "take 5 (new_effects w (fst (fullscreenMode w))) =
           [Enter_fullscreenMode,
            SetProperty ''--fadeIn-duration''
              (toString w (get_prop (settings w) ''animationDuration'') @ ''s''),
            SetProperty ''--vignette-opacity''
              (toString w (get_prop (settings w) ''vignetteOpacity'') @ ''%''),
            SetProperty ''--vignette-scale-linear''
              (toString w (get_prop (settings w) ''vignetteScaleLinear'') @ ''%''),
            SetProperty ''--vignette-scale-radial''
              (toString w (get_prop (settings w) ''vignetteScaleRadial'') @ ''%'')]"
  by (cases "containerEl l"; cases "fullscreenElement w")
     (simp_all add: fullscreenMode_target [OF assms] Let_def new_effects_def
        addStyles_trace removeStyles_trace)

lemma fullscreenMode_later_effects:
  assumes "activeItemViewLeaf w = Some l" and "viewType (view l) \<noteq> ''empty''"
  shows "Enter_fullscreenMode \<notin> set (drop 5 (new_effects w (fst (fullscreenMode w))))"
proof (cases "containerEl l"; cases "fullscreenElement w")
  fix c
  assume "containerEl l = Some c" "fullscreenElement w = None"
  from fullscreenMode_enter(9) [OF assms this] show ?thesis
    by (auto dest: addStyles_effects_ClassAdd)
next
  fix c f
  assume "containerEl l = Some c" "fullscreenElement w = Some f"
  from fullscreenMode_exit(9) [OF assms this] show ?thesis
    by (auto dest: removeStyles_effects_ClassRemove)
next
  assume "containerEl l = None" "fullscreenElement w = None"
  from fullscreenMode_no_container_enter(9) [OF assms this] show ?thesis
    by simp
next
  fix f
  assume "containerEl l = None" "fullscreenElement w = Some f"
  from fullscreenMode_no_container_exit(9) [OF assms this] show ?thesis
    by (auto dest: removeStyles_effects_ClassRemove)
qed

lemma fullscreenMode_marks_once:
  "filter (\<lambda>x. x = Enter_fullscreenMode) (new_effects w (fst (fullscreenMode w))) =
     [Enter_fullscreenMode]"
proof (cases "\<exists>l. activeItemViewLeaf w = Some l \<and> viewType (view l) \<noteq> ''empty''")
  case True
  then obtain l where l: "activeItemViewLeaf w = Some l" "viewType (view l) \<noteq> ''empty''"
    by blast
  let ?es = "new_effects w (fst (fullscreenMode w))"
  have "filter (\<lambda>x. x = Enter_fullscreenMode) ?es =
        filter (\<lambda>x. x = Enter_fullscreenMode) (take 5 ?es) @
        filter (\<lambda>x. x = Enter_fullscreenMode) (drop 5 ?es)"
    by (simp flip: filter_append)
  moreover have "filter (\<lambda>x. x = Enter_fullscreenMode) (drop 5 ?es) = []"
    using fullscreenMode_later_effects [OF l] by (auto simp add: filter_empty_conv)
  ultimately show ?thesis
    by (simp add: fullscreenMode_first_effects [OF l])
next
  case False
  then have "activeItemViewLeaf w = None \<or>
             (\<exists>l. activeItemViewLeaf w = Some l \<and> viewType (view l) = ''empty'')"
    by (cases "activeItemViewLeaf w") auto
  then show ?thesis
    by (simp add: fullscreenMode_no_target new_effects_def)
qed

lemma fullscreenMode_rootStyle:
  assumes "activeItemViewLeaf w = Some l" and "viewType (view l) \<noteq> ''empty''"
  shows "rootStyle (fst (fullscreenMode w)) =
           (rootStyle w)
             (''--fadeIn-duration'' \<mapsto>
                toString w (get_prop (settings w) ''animationDuration'') @ ''s'',
              ''--vignette-opacity'' \<mapsto>
                toString w (get_prop (settings w) ''vignetteOpacity'') @ ''%'',
              ''--vignette-scale-linear'' \<mapsto>
                toString w (get_prop (settings w) ''vignetteScaleLinear'') @ ''%'',
              ''--vignette-scale-radial'' \<mapsto>
                toString w (get_prop (settings w) ''vignetteScaleRadial'') @ ''%'')"
  by (cases "containerEl l"; cases "fullscreenElement w")
     (simp_all add: fullscreenMode_target [OF assms] Let_def)

section \<open>The toggle without a target\<close>

text \<open>
  C8. If no active view resolves, or the view that resolves is of the empty type,
  \<^verbatim>\<open>fullscreenMode\<close> returns and changes nothing: the zen flag, the style variables, the
  classes of every element, the fullscreen element and the installed handlers are as before,
  and the only entry added to the trace is the mark of the invocation itself (no style
  variable written, no class added or removed, no fullscreen request or exit).
\<close>

theorem fullscreenMode_without_target:
  assumes "activeItemViewLeaf w = None \<or>
           (\<exists>l. activeItemViewLeaf w = Some l \<and> viewType (view l) = ''empty'')"
  shows "fullscreenMode w = (w\<lparr>trace := trace w @ [Enter_fullscreenMode]\<rparr>, Returned) \<and>
         isInZenMode (fst (fullscreenMode w)) = isInZenMode w \<and>
         rootStyle (fst (fullscreenMode w)) = rootStyle w \<and>
         classes (fst (fullscreenMode w)) = classes w \<and>
         fullscreenElement (fst (fullscreenMode w)) = fullscreenElement w \<and>
         onfullscreenchange (fst (fullscreenMode w)) = onfullscreenchange w \<and>
         new_effects w (fst (fullscreenMode w)) = [Enter_fullscreenMode]"
proof -
  have "fullscreenMode w = (w\<lparr>trace := trace w @ [Enter_fullscreenMode]\<rparr>, Returned)"
    using assms by (rule fullscreenMode_no_target)
  then show ?thesis
    by (simp add: new_effects_def)
qed

theorem fullscreenMode_without_target_witness:
  "activeItemViewLeaf no_item_view_world = None \<and>
   fullscreenMode no_item_view_world =
     (no_item_view_world\<lparr>trace := [Enter_fullscreenMode]\<rparr>, Returned) \<and>
   isInZenMode (fst (fullscreenMode no_item_view_world)) = False"
  using fullscreenMode_without_target [of no_item_view_world]
  by (simp add: no_item_view_world_def autozen_world_def fresh_world_def)

section \<open>The toggle with a target\<close>

text \<open>
  C9. Whenever a view resolves that is not of the empty type, \<^verbatim>\<open>fullscreenMode\<close> writes the
  four style variables of the document root from the current preferences, whatever the
  direction of the toggle and however the call ends: the fade duration is the string of
  \<^verbatim>\<open>animationDuration\<close> followed by \<^verbatim>\<open>s\<close>, and the vignette opacity, linear scale and radial
  scale are the strings of \<^verbatim>\<open>vignetteOpacity\<close>, \<^verbatim>\<open>vignetteScaleLinear\<close> and
  \<^verbatim>\<open>vignetteScaleRadial\<close> followed by a percent sign. The four writes are the first calls into
  the host, in this order.
\<close>

theorem fullscreenMode_writes_style_variables:
  assumes "activeItemViewLeaf w = Some l" and "viewType (view l) \<noteq> ''empty''"
  shows "rootStyle (fst (fullscreenMode w)) ''--fadeIn-duration'' =
           Some (toString w (get_prop (settings w) ''animationDuration'') @ ''s'') \<and>
         rootStyle (fst (fullscreenMode w)) ''--vignette-opacity'' =
           Some (toString w (get_prop (settings w) ''vignetteOpacity'') @ ''%'') \<and>
         rootStyle (fst (fullscreenMode w)) ''--vignette-scale-linear'' =
           Some (toString w (get_prop (settings w) ''vignetteScaleLinear'') @ ''%'') \<and>
         rootStyle (fst (fullscreenMode w)) ''--vignette-scale-radial'' =
           Some (toString w (get_prop (settings w) ''vignetteScaleRadial'') @ ''%'') \<and>
         take 5 (new_effects w (fst (fullscreenMode w))) =
           [Enter_fullscreenMode,
            SetProperty ''--fadeIn-duration''
              (toString w (get_prop (settings w) ''animationDuration'') @ ''s''),
            SetProperty ''--vignette-opacity''
              (toString w (get_prop (settings w) ''vignetteOpacity'') @ ''%''),
            SetProperty ''--vignette-scale-linear''
              (toString w (get_prop (settings w) ''vignetteScaleLinear'') @ ''%''),
            SetProperty ''--vignette-scale-radial''
              (toString w (get_prop (settings w) ''vignetteScaleRadial'') @ ''%'')]"
proof -
  note written = fullscreenMode_rootStyle [OF assms]
  have "rootStyle (fst (fullscreenMode w)) ''--fadeIn-duration'' =
           Some (toString w (get_prop (settings w) ''animationDuration'') @ ''s'')"
    and "rootStyle (fst (fullscreenMode w)) ''--vignette-opacity'' =
           Some (toString w (get_prop (settings w) ''vignetteOpacity'') @ ''%'')"
    and "rootStyle (fst (fullscreenMode w)) ''--vignette-scale-linear'' =
           Some (toString w (get_prop (settings w) ''vignetteScaleLinear'') @ ''%'')"
    and "rootStyle (fst (fullscreenMode w)) ''--vignette-scale-radial'' =
           Some (toString w (get_prop (settings w) ''vignetteScaleRadial'') @ ''%'')"
    by (simp_all add: written)
  then show ?thesis
    using fullscreenMode_first_effects [OF assms] by simp
qed

theorem fullscreenMode_writes_style_variables_witness:
  "activeItemViewLeaf fresh_world = Some note_leaf \<and>
   viewType (view note_leaf) \<noteq> ''empty'' \<and>
   rootStyle (fst (fullscreenMode fresh_world)) ''--fadeIn-duration'' = Some ''2s'' \<and>
   rootStyle (fst (fullscreenMode fresh_world)) ''--vignette-opacity'' = Some ''0.75%'' \<and>
   rootStyle (fst (fullscreenMode fresh_world)) ''--vignette-scale-linear'' = Some ''20%'' \<and>
   rootStyle (fst (fullscreenMode fresh_world)) ''--vignette-scale-radial'' = Some ''75%''"
  using fullscreenMode_writes_style_variables [of fresh_world note_leaf]
  by (simp add: fresh_world_def note_leaf_def note_view_def DEFAULT_SETTINGS_def get_prop_def
        demo_numberToString_def)

section \<open>Entering: the vignette\<close>

text \<open>
  C6. \<^verbatim>\<open>addStyles\<close> adds exactly one vignette class, to the content element: the calls that
  add a vignette class are the single call that adds \<^verbatim>\<open>vignette-radial\<close> when the view is of
  the graph type and \<^verbatim>\<open>vignette-linear\<close> otherwise. So the radial class is added if and only
  if the view is a graph, the linear one if and only if it is not, and afterwards the content
  element has the one that was added next to the vignette classes it had before.
\<close>

theorem addStyles_one_vignette:
  "filter (\<lambda>x. case x of ClassAdd e c \<Rightarrow> c \<in> {''vignette-radial'', ''vignette-linear''} | _ \<Rightarrow> False)
          (new_effects w (addStyles l w)) =
     [ClassAdd (contentEl (view l))
        (if viewType (view l) = ''graph'' then ''vignette-radial'' else ''vignette-linear'')] \<and>
   (ClassAdd (contentEl (view l)) ''vignette-radial'' \<in> set (new_effects w (addStyles l w))
      \<longleftrightarrow> viewType (view l) = ''graph'') \<and>
   (ClassAdd (contentEl (view l)) ''vignette-linear'' \<in> set (new_effects w (addStyles l w))
      \<longleftrightarrow> viewType (view l) \<noteq> ''graph'') \<and>
   (''vignette-radial'' \<in> classes (addStyles l w) (contentEl (view l)) \<longleftrightarrow>
      viewType (view l) = ''graph'' \<or> ''vignette-radial'' \<in> classes w (contentEl (view l))) \<and>
   (''vignette-linear'' \<in> classes (addStyles l w) (contentEl (view l)) \<longleftrightarrow>
      viewType (view l) \<noteq> ''graph'' \<or> ''vignette-linear'' \<in> classes w (contentEl (view l)))"
proof -
  have eff: "new_effects w (addStyles l w) =
     (if \<not> truthy (get_prop (settings w) ''showScroll'')
      then [ClassAdd (contentEl (view l)) ''noscroll''] else []) @
     (if viewType (view l) = ''graph'' \<and> \<not> truthy (get_prop (settings w) ''showGraphControls'')
      then (case controlsEl (view l) of Some g \<Rightarrow> [ClassAdd g ''hide''] | None \<Rightarrow> []) else []) @
     [ClassAdd (contentEl (view l))
        (if viewType (view l) = ''graph'' then ''vignette-radial'' else ''vignette-linear'')] @
     (if viewType (view l) \<noteq> ''graph'' \<and> truthy (get_prop (settings w) ''forceReadable'')
      then (case editorEl (view l) of
              Some e \<Rightarrow> [ClassAdd e ''is-readable-line-width''] | None \<Rightarrow> []) else []) @
     [ClassAdd (contentEl (view l)) ''animate'',
      ClassAdd (headerEl (view l))
        (if truthy (get_prop (settings w) ''showHeader'') then ''animate'' else ''hide'')]"
    by (simp add: new_effects_def addStyles_trace)
  have "filter (\<lambda>x. case x of ClassAdd e c \<Rightarrow> c \<in> {''vignette-radial'', ''vignette-linear''} | _ \<Rightarrow> False)
          (new_effects w (addStyles l w)) =
     [ClassAdd (contentEl (view l))
        (if viewType (view l) = ''graph'' then ''vignette-radial'' else ''vignette-linear'')]"
    by (cases "controlsEl (view l)"; cases "editorEl (view l)";
        cases "viewType (view l) = ''graph''";
        cases "truthy (get_prop (settings w) ''showScroll'')";
        cases "truthy (get_prop (settings w) ''showGraphControls'')";
        cases "truthy (get_prop (settings w) ''forceReadable'')";
        cases "truthy (get_prop (settings w) ''showHeader'')";
        simp add: eff)
  moreover have "ClassAdd (contentEl (view l)) ''vignette-radial'' \<in> set (new_effects w (addStyles l w))
      \<longleftrightarrow> viewType (view l) = ''graph''"
    by (cases "controlsEl (view l)"; cases "editorEl (view l)";
        cases "viewType (view l) = ''graph''";
        cases "truthy (get_prop (settings w) ''showScroll'')";
        cases "truthy (get_prop (settings w) ''showGraphControls'')";
        cases "truthy (get_prop (settings w) ''forceReadable'')";
        cases "truthy (get_prop (settings w) ''showHeader'')";
        simp add: eff)
  moreover have "ClassAdd (contentEl (view l)) ''vignette-linear'' \<in> set (new_effects w (addStyles l w))
      \<longleftrightarrow> viewType (view l) \<noteq> ''graph''"
    by (cases "controlsEl (view l)"; cases "editorEl (view l)";
        cases "viewType (view l) = ''graph''";
        cases "truthy (get_prop (settings w) ''showScroll'')";
        cases "truthy (get_prop (settings w) ''showGraphControls'')";
        cases "truthy (get_prop (settings w) ''forceReadable'')";
        cases "truthy (get_prop (settings w) ''showHeader'')";
        simp add: eff)
  moreover have "''vignette-radial'' \<in> classes (addStyles l w) (contentEl (view l)) \<longleftrightarrow>
      viewType (view l) = ''graph'' \<or> ''vignette-radial'' \<in> classes w (contentEl (view l))"
    by (auto simp: addStyles_classes)
  moreover have "''vignette-linear'' \<in> classes (addStyles l w) (contentEl (view l)) \<longleftrightarrow>
      viewType (view l) \<noteq> ''graph'' \<or> ''vignette-linear'' \<in> classes w (contentEl (view l))"
    by (auto simp: addStyles_classes)
  ultimately show ?thesis by blast
qed

theorem addStyles_one_vignette_witness:
  "ClassAdd 11 ''vignette-radial'' \<in> set (new_effects fresh_world (addStyles graph_leaf fresh_world)) \<and>
   ClassAdd 11 ''vignette-linear'' \<notin> set (new_effects fresh_world (addStyles graph_leaf fresh_world)) \<and>
   ClassAdd 1 ''vignette-linear'' \<in> set (new_effects fresh_world (addStyles note_leaf fresh_world)) \<and>
   ClassAdd 1 ''vignette-radial'' \<notin> set (new_effects fresh_world (addStyles note_leaf fresh_world))"
  using addStyles_one_vignette [of fresh_world graph_leaf]
        addStyles_one_vignette [of fresh_world note_leaf]
  by (simp add: graph_leaf_def graph_view_def note_leaf_def note_view_def)

section \<open>Exiting: the readable width\<close>

text \<open>
  C4. \<^verbatim>\<open>removeStyles\<close> asks an element to drop the class \<^verbatim>\<open>is-readable-line-width\<close> if and only
  if the view is not a graph, the readable line length setting of the host is off and the
  element is the editing surface of the view. So for a view that is not a graph the class is
  removed from the editing surface exactly when the setting is off and stays as it was when
  the setting is on, and for a graph the class is touched on no element.
\<close>

theorem removeStyles_readable_width:
  "(ClassRemove e ''is-readable-line-width'' \<in> set (new_effects w (removeStyles l w)) \<longleftrightarrow>
      viewType (view l) \<noteq> ''graph'' \<and> \<not> readableLineLength w \<and> editorEl (view l) = Some e) \<and>
   (''is-readable-line-width'' \<in> classes (removeStyles l w) e \<longleftrightarrow>
      ''is-readable-line-width'' \<in> classes w e \<and>
      \<not> (viewType (view l) \<noteq> ''graph'' \<and> \<not> readableLineLength w \<and> editorEl (view l) = Some e))"
proof -
  have eff: "new_effects w (removeStyles l w) =
     (if viewType (view l) = ''graph''
      then (case controlsEl (view l) of
              Some g \<Rightarrow> [ClassRemove g ''animate'', ClassRemove g ''hide''] | None \<Rightarrow> [])
      else if \<not> readableLineLength w
      then (case editorEl (view l) of
              Some e \<Rightarrow> [ClassRemove e ''is-readable-line-width''] | None \<Rightarrow> [])
      else []) @
     [ClassRemove (contentEl (view l)) ''vignette-linear'',
      ClassRemove (contentEl (view l)) ''vignette-radial'',
      ClassRemove (contentEl (view l)) ''animate'',
      ClassRemove (contentEl (view l)) ''noscroll'',
      ClassRemove (headerEl (view l)) ''animate'',
      ClassRemove (headerEl (view l)) ''hide'']"
    by (simp add: new_effects_def removeStyles_trace)
  have "ClassRemove e ''is-readable-line-width'' \<in> set (new_effects w (removeStyles l w)) \<longleftrightarrow>
      viewType (view l) \<noteq> ''graph'' \<and> \<not> readableLineLength w \<and> editorEl (view l) = Some e"
    by (cases "controlsEl (view l)"; cases "editorEl (view l)";
        cases "viewType (view l) = ''graph''"; cases "readableLineLength w";
        auto simp add: eff)
  moreover have "''is-readable-line-width'' \<in> classes (removeStyles l w) e \<longleftrightarrow>
      ''is-readable-line-width'' \<in> classes w e \<and>
      \<not> (viewType (view l) \<noteq> ''graph'' \<and> \<not> readableLineLength w \<and> editorEl (view l) = Some e)"
    by (simp add: removeStyles_classes)
  ultimately show ?thesis by blast
qed

theorem removeStyles_readable_width_witness:
  "ClassRemove 3 ''is-readable-line-width''
     \<in> set (new_effects fresh_world (removeStyles note_leaf fresh_world)) \<and>
   ClassRemove 3 ''is-readable-line-width''
     \<notin> set (new_effects diverged_world (removeStyles note_leaf diverged_world)) \<and>
   ClassRemove 3 ''is-readable-line-width''
     \<notin> set (new_effects fresh_world (removeStyles graph_leaf fresh_world))"
  using removeStyles_readable_width [of 3 fresh_world note_leaf]
        removeStyles_readable_width [of 3 diverged_world note_leaf]
        removeStyles_readable_width [of 3 fresh_world graph_leaf]
  by (simp add: graph_leaf_def graph_view_def note_leaf_def note_view_def fresh_world_def
        diverged_world_def)

section \<open>The auto-zen trigger\<close>

lemma handleEditorChange_conditions:
  "handleEditorChange w =
     (if auto_zen_conditions w then
        (case snd (fullscreenMode w) of
           Returned \<Rightarrow> ((fst (fullscreenMode w))\<lparr>isInZenMode := True\<rparr>, Returned)
         | Threw e \<Rightarrow> (fst (fullscreenMode w), Threw e))
      else (w, Returned))"
proof (cases "activeLeaf w")
  case None
  then show ?thesis
    by (simp add: handleEditorChange_def auto_zen_conditions_def)
next
  case (Some al)
  show ?thesis
  proof (cases "activeEditor w")
    case None
    with Some show ?thesis
      by (simp add: handleEditorChange_def auto_zen_conditions_def)
  next
    case info: (Some info)
    show ?thesis
    proof (cases "editor info")
      case None
      with Some info show ?thesis
        by (simp add: handleEditorChange_def auto_zen_conditions_def)
    next
      case ed: (Some ed)
      with Some info show ?thesis
        by (cases "fullscreenMode w")
           (simp add: handleEditorChange_def auto_zen_conditions_def split: outcome.splits)
    qed
  qed
qed

lemma handleEditorChange_trace:
  "trace (fst (handleEditorChange w)) =
     (if auto_zen_conditions w then trace (fst (fullscreenMode w)) else trace w)"
  by (simp add: handleEditorChange_conditions split: outcome.splits)

text \<open>
  C3. The auto-zen trigger invokes the toggle exactly when the guard conditions hold: the
  auto-zen preference is enabled, the plugin is not in zen mode, an active view exists and is
  not of the empty type, and an active editor exists whose text is not empty after trimming.
  When they hold the toggle is invoked once; when one of them fails the handler returns and
  leaves the state as it was.
\<close>

theorem handleEditorChange_acts_iff_conditions:
  "(Enter_fullscreenMode \<in> set (new_effects w (fst (handleEditorChange w)))
      \<longleftrightarrow> auto_zen_conditions w) \<and>
   filter (\<lambda>x. x = Enter_fullscreenMode) (new_effects w (fst (handleEditorChange w))) =
     (if auto_zen_conditions w then [Enter_fullscreenMode] else []) \<and>
   (\<not> auto_zen_conditions w \<longrightarrow> handleEditorChange w = (w, Returned))"
proof -
  have eff: "new_effects w (fst (handleEditorChange w)) =
      (if auto_zen_conditions w then new_effects w (fst (fullscreenMode w)) else [])"
    by (simp add: new_effects_def handleEditorChange_trace)
  have once: "filter (\<lambda>x. x = Enter_fullscreenMode) (new_effects w (fst (handleEditorChange w))) =
     (if auto_zen_conditions w then [Enter_fullscreenMode] else [])"
    by (simp add: eff fullscreenMode_marks_once)
  have "Enter_fullscreenMode \<in> set (new_effects w (fst (handleEditorChange w)))
      \<longleftrightarrow> auto_zen_conditions w"
  proof -
    have "Enter_fullscreenMode \<in> set (new_effects w (fst (handleEditorChange w))) \<longleftrightarrow>
          filter (\<lambda>x. x = Enter_fullscreenMode) (new_effects w (fst (handleEditorChange w))) \<noteq> []"
      by (simp add: filter_empty_conv)
    then show ?thesis
      by (simp add: once)
  qed
  moreover have "\<not> auto_zen_conditions w \<longrightarrow> handleEditorChange w = (w, Returned)"
    by (simp add: handleEditorChange_conditions)
  ultimately show ?thesis
    using once by blast
qed

theorem handleEditorChange_acts_iff_conditions_witness:
  "auto_zen_conditions autozen_world \<and>
   Enter_fullscreenMode \<in> set (new_effects autozen_world (fst (handleEditorChange autozen_world))) \<and>
   \<not> auto_zen_conditions fresh_world \<and>
   handleEditorChange fresh_world = (fresh_world, Returned)"
  using handleEditorChange_acts_iff_conditions [of autozen_world]
        handleEditorChange_acts_iff_conditions [of fresh_world]
  by (simp add: auto_zen_conditions_def autozen_world_def fresh_world_def note_leaf_def
        note_view_def DEFAULT_SETTINGS_def get_prop_def set_prop_def trim_def isWhiteSpace_def)

text \<open>
  C10. When the guard conditions of the auto-zen trigger hold, the handler ends as its call
  of the toggle ends, and whenever it returns the zen flag is set, whatever the toggle did. It
  returns unless a target resolves whose container element is missing. If the toggle found no
  target, the handler has only set the flag: nothing is fullscreen and no style was applied.
  If an element was already fullscreen, the toggle took the exit branch (fullscreen left, the
  styles removed, the flag cleared) and the handler then set the flag all the same.
\<close>

theorem handleEditorChange_sets_flag:
  assumes "auto_zen_conditions w"
  shows "snd (handleEditorChange w) = snd (fullscreenMode w) \<and>
         (snd (handleEditorChange w) = Returned \<longrightarrow> isInZenMode (fst (handleEditorChange w))) \<and>
         (snd (handleEditorChange w) = Returned \<longleftrightarrow>
            \<not> (\<exists>l. activeItemViewLeaf w = Some l \<and> viewType (view l) \<noteq> ''empty'' \<and>
                     containerEl l = None)) \<and>
         (activeItemViewLeaf w = None \<or>
          (\<exists>l. activeItemViewLeaf w = Some l \<and> viewType (view l) = ''empty'') \<longrightarrow>
            handleEditorChange w =
              (w\<lparr>isInZenMode := True, trace := trace w @ [Enter_fullscreenMode]\<rparr>, Returned)) \<and>
         (\<forall>l c f. activeItemViewLeaf w = Some l \<and> viewType (view l) \<noteq> ''empty'' \<and>
                  containerEl l = Some c \<and> fullscreenElement w = Some f \<longrightarrow>
            snd (handleEditorChange w) = Returned \<and>
            isInZenMode (fst (handleEditorChange w)) \<and>
            fullscreenElement (fst (handleEditorChange w)) = None \<and>
            classes (fst (handleEditorChange w)) = classes (removeStyles l w) \<and>
            drop 5 (new_effects w (fst (handleEditorChange w))) =
              ExitFullscreen # new_effects w (removeStyles l w) @ [SetOnfullscreenchange c])"
proof -
  have h: "handleEditorChange w =
      (case snd (fullscreenMode w) of
         Returned \<Rightarrow> ((fst (fullscreenMode w))\<lparr>isInZenMode := True\<rparr>, Returned)
       | Threw e \<Rightarrow> (fst (fullscreenMode w), Threw e))"
    using assms by (simp add: handleEditorChange_conditions)
  have outcome: "snd (handleEditorChange w) = snd (fullscreenMode w)"
    by (simp add: h split: outcome.splits)
  have flag: "snd (handleEditorChange w) = Returned \<longrightarrow> isInZenMode (fst (handleEditorChange w))"
    by (simp add: h split: outcome.splits)
  have returns: "snd (fullscreenMode w) = Returned \<longleftrightarrow>
            \<not> (\<exists>l. activeItemViewLeaf w = Some l \<and> viewType (view l) \<noteq> ''empty'' \<and>
                     containerEl l = None)"
  proof (cases "\<exists>l. activeItemViewLeaf w = Some l \<and> viewType (view l) \<noteq> ''empty''")
    case True
    then obtain l where l: "activeItemViewLeaf w = Some l" "viewType (view l) \<noteq> ''empty''"
      by blast
    show ?thesis
      using l fullscreenMode_enter(1) [OF l] fullscreenMode_exit(1) [OF l]
        fullscreenMode_no_container_enter(1) [OF l] fullscreenMode_no_container_exit(1) [OF l]
      by (cases "containerEl l"; cases "fullscreenElement w") simp_all
  next
    case False
    then have "activeItemViewLeaf w = None \<or>
               (\<exists>l. activeItemViewLeaf w = Some l \<and> viewType (view l) = ''empty'')"
      by (cases "activeItemViewLeaf w") auto
    with False show ?thesis
      by (auto simp add: fullscreenMode_no_target)
  qed
  have no_target: "activeItemViewLeaf w = None \<or>
          (\<exists>l. activeItemViewLeaf w = Some l \<and> viewType (view l) = ''empty'') \<longrightarrow>
            handleEditorChange w =
              (w\<lparr>isInZenMode := True, trace := trace w @ [Enter_fullscreenMode]\<rparr>, Returned)"
    by (auto simp add: h fullscreenMode_no_target)
  have exits: "\<forall>l c f. activeItemViewLeaf w = Some l \<and> viewType (view l) \<noteq> ''empty'' \<and>
                  containerEl l = Some c \<and> fullscreenElement w = Some f \<longrightarrow>
            snd (handleEditorChange w) = Returned \<and>
            isInZenMode (fst (handleEditorChange w)) \<and>
            fullscreenElement (fst (handleEditorChange w)) = None \<and>
            classes (fst (handleEditorChange w)) = classes (removeStyles l w) \<and>
            drop 5 (new_effects w (fst (handleEditorChange w))) =
              ExitFullscreen # new_effects w (removeStyles l w) @ [SetOnfullscreenchange c]"
  proof (intro allI impI, elim conjE)
    fix l c f
    assume a: "activeItemViewLeaf w = Some l" "viewType (view l) \<noteq> ''empty''"
      "containerEl l = Some c" "fullscreenElement w = Some f"
    note ex = fullscreenMode_exit [OF a]
    have h': "handleEditorChange w = ((fst (fullscreenMode w))\<lparr>isInZenMode := True\<rparr>, Returned)"
      by (simp add: h ex(1))
    have "new_effects w (fst (handleEditorChange w)) = new_effects w (fst (fullscreenMode w))"
      by (simp add: h' new_effects_def)
    then show "snd (handleEditorChange w) = Returned \<and>
            isInZenMode (fst (handleEditorChange w)) \<and>
            fullscreenElement (fst (handleEditorChange w)) = None \<and>
            classes (fst (handleEditorChange w)) = classes (removeStyles l w) \<and>
            drop 5 (new_effects w (fst (handleEditorChange w))) =
              ExitFullscreen # new_effects w (removeStyles l w) @ [SetOnfullscreenchange c]"
      by (simp add: h' ex)
  qed
  have returns': "snd (handleEditorChange w) = Returned \<longleftrightarrow>
            \<not> (\<exists>l. activeItemViewLeaf w = Some l \<and> viewType (view l) \<noteq> ''empty'' \<and>
                     containerEl l = None)"
    by (simp only: outcome returns)
  show ?thesis
    by (intro conjI outcome flag returns' no_target exits)
qed

theorem handleEditorChange_sets_flag_witness:
  "auto_zen_conditions no_item_view_world \<and>
   handleEditorChange no_item_view_world =
     (no_item_view_world\<lparr>isInZenMode := True, trace := [Enter_fullscreenMode]\<rparr>, Returned) \<and>
   fullscreenElement (fst (handleEditorChange no_item_view_world)) = None \<and>
   classes (fst (handleEditorChange no_item_view_world)) 2 = {} \<and>
   auto_zen_conditions other_fullscreen_world \<and>
   snd (handleEditorChange other_fullscreen_world) = Returned \<and>
   isInZenMode (fst (handleEditorChange other_fullscreen_world)) \<and>
   fullscreenElement (fst (handleEditorChange other_fullscreen_world)) = None"
proof -
  have a: "auto_zen_conditions no_item_view_world"
    by (simp add: auto_zen_conditions_def no_item_view_world_def autozen_world_def
          fresh_world_def note_leaf_def note_view_def DEFAULT_SETTINGS_def get_prop_def
          set_prop_def trim_def isWhiteSpace_def)
  have b: "auto_zen_conditions other_fullscreen_world"
    by (simp add: auto_zen_conditions_def other_fullscreen_world_def autozen_world_def
          fresh_world_def note_leaf_def note_view_def DEFAULT_SETTINGS_def get_prop_def
          set_prop_def trim_def isWhiteSpace_def)
  have c: "activeItemViewLeaf other_fullscreen_world = Some note_leaf \<and>
           viewType (view note_leaf) \<noteq> ''empty'' \<and> containerEl note_leaf = Some 0 \<and>
           fullscreenElement other_fullscreen_world = Some 9"
    by (simp add: other_fullscreen_world_def autozen_world_def fresh_world_def note_leaf_def
          note_view_def)
  have d: "activeItemViewLeaf no_item_view_world = None"
    "trace no_item_view_world = []" "classes no_item_view_world 2 = {}"
    "fullscreenElement no_item_view_world = None"
    by (simp_all add: no_item_view_world_def autozen_world_def fresh_world_def)
  show ?thesis
    using handleEditorChange_sets_flag [OF a] handleEditorChange_sets_flag [OF b] c
    by (auto simp add: a b d)
qed

section \<open>A leaf without a container element\<close>

lemma example_facts:
  "activeItemViewLeaf no_container_world = Some (note_leaf\<lparr>containerEl := None\<rparr>)"
  "viewType (view (note_leaf\<lparr>containerEl := None\<rparr>)) \<noteq> ''empty''"
  "containerEl (note_leaf\<lparr>containerEl := None\<rparr>) = None"
  "fullscreenElement no_container_world = None"
  "rootStyle no_container_world = Map.empty"
  "toString no_container_world (get_prop (settings no_container_world) ''animationDuration'') = ''2''"
  "isInZenMode no_container_world = False"
  "viewType (view note_leaf) \<noteq> ''empty''"
  by (simp_all add: no_container_world_def fresh_world_def note_leaf_def note_view_def
        DEFAULT_SETTINGS_def get_prop_def demo_numberToString_def)

text \<open>
  C5, as the specification states it, fails: with a view that resolves and a leaf whose
  container element is missing, the toggle is not a no-operation and it does fail. In the
  state \<open>no_container_world\<close> it writes the fade duration \<^verbatim>\<open>2s\<close> to the document root and then
  throws a \<^verbatim>\<open>TypeError\<close>.
\<close>

theorem fullscreenMode_no_container_counterexample:
  "activeItemViewLeaf no_container_world = Some (note_leaf\<lparr>containerEl := None\<rparr>) \<and>
   containerEl (note_leaf\<lparr>containerEl := None\<rparr>) = None \<and>
   snd (fullscreenMode no_container_world) = Threw TypeError \<and>
   rootStyle no_container_world ''--fadeIn-duration'' = None \<and>
   rootStyle (fst (fullscreenMode no_container_world)) ''--fadeIn-duration'' = Some ''2s''"
  using fullscreenMode_no_container_enter(1) [OF example_facts(1,2,3,4)]
        fullscreenMode_rootStyle [OF example_facts(1,2)]
  by (simp add: example_facts)

text \<open>
  C5, amended. The source reads \<^verbatim>\<open>containerEl\<close> with no check. If a view resolves that is not of
  the empty type and the container element of its leaf is missing, the toggle writes the four
  style variables and then throws a \<^verbatim>\<open>TypeError\<close>. It never requests fullscreen and never adds
  a class. When nothing is fullscreen it stops at the fullscreen request: the zen flag, the
  classes and the fullscreen element are unchanged and the four writes are its only calls
  into the host. When an element is fullscreen it first leaves fullscreen, removes the styles
  and clears the zen flag, and throws when it installs the handler.
\<close>

theorem fullscreenMode_no_container:
  assumes "activeItemViewLeaf w = Some l" and "viewType (view l) \<noteq> ''empty''"
    and "containerEl l = None"
  shows "snd (fullscreenMode w) = Threw TypeError \<and>
         take 5 (new_effects w (fst (fullscreenMode w))) =
           [Enter_fullscreenMode,
            SetProperty ''--fadeIn-duration''
              (toString w (get_prop (settings w) ''animationDuration'') @ ''s''),
            SetProperty ''--vignette-opacity''
              (toString w (get_prop (settings w) ''vignetteOpacity'') @ ''%''),
            SetProperty ''--vignette-scale-linear''
              (toString w (get_prop (settings w) ''vignetteScaleLinear'') @ ''%''),
            SetProperty ''--vignette-scale-radial''
              (toString w (get_prop (settings w) ''vignetteScaleRadial'') @ ''%'')] \<and>
         (\<forall>e. RequestFullscreen e \<notin> set (new_effects w (fst (fullscreenMode w)))) \<and>
         (\<forall>e c. ClassAdd e c \<notin> set (new_effects w (fst (fullscreenMode w)))) \<and>
         (fullscreenElement w = None \<longrightarrow>
            isInZenMode (fst (fullscreenMode w)) = isInZenMode w \<and>
            classes (fst (fullscreenMode w)) = classes w \<and>
            fullscreenElement (fst (fullscreenMode w)) = None \<and>
            drop 5 (new_effects w (fst (fullscreenMode w))) = []) \<and>
         (fullscreenElement w \<noteq> None \<longrightarrow>
            isInZenMode (fst (fullscreenMode w)) = False \<and>
            classes (fst (fullscreenMode w)) = classes (removeStyles l w) \<and>
            fullscreenElement (fst (fullscreenMode w)) = None \<and>
            drop 5 (new_effects w (fst (fullscreenMode w))) =
              ExitFullscreen # new_effects w (removeStyles l w))"
proof -
  let ?es = "new_effects w (fst (fullscreenMode w))"
  note first = fullscreenMode_first_effects [OF assms(1,2)]
  have split: "set ?es = set (take 5 ?es) \<union> set (drop 5 ?es)"
    by (metis append_take_drop_id set_append)
  have later: "\<forall>x \<in> set (drop 5 ?es). x = ExitFullscreen \<or> (\<exists>e c. x = ClassRemove e c)"
  proof (cases "fullscreenElement w")
    case None
    from fullscreenMode_no_container_enter(9) [OF assms None] show ?thesis
      by simp
  next
    case (Some f)
    from fullscreenMode_no_container_exit(9) [OF assms Some] show ?thesis
      by (auto dest: removeStyles_effects_ClassRemove)
  qed
  have no_request: "\<forall>e. RequestFullscreen e \<notin> set ?es"
    using later by (auto simp add: split first)
  have no_add: "\<forall>e c. ClassAdd e c \<notin> set ?es"
    using later by (auto simp add: split first)
  have throws: "snd (fullscreenMode w) = Threw TypeError"
    using fullscreenMode_no_container_enter(1) [OF assms]
          fullscreenMode_no_container_exit(1) [OF assms]
    by (cases "fullscreenElement w") simp_all
  have stops: "fullscreenElement w = None \<longrightarrow>
            isInZenMode (fst (fullscreenMode w)) = isInZenMode w \<and>
            classes (fst (fullscreenMode w)) = classes w \<and>
            fullscreenElement (fst (fullscreenMode w)) = None \<and>
            drop 5 (new_effects w (fst (fullscreenMode w))) = []"
    using fullscreenMode_no_container_enter [OF assms] by simp
  have leaves: "fullscreenElement w \<noteq> None \<longrightarrow>
            isInZenMode (fst (fullscreenMode w)) = False \<and>
            classes (fst (fullscreenMode w)) = classes (removeStyles l w) \<and>
            fullscreenElement (fst (fullscreenMode w)) = None \<and>
            drop 5 (new_effects w (fst (fullscreenMode w))) =
              ExitFullscreen # new_effects w (removeStyles l w)"
  proof
    assume "fullscreenElement w \<noteq> None"
    then obtain f where "fullscreenElement w = Some f"
      by blast
    from fullscreenMode_no_container_exit [OF assms this]
    show "isInZenMode (fst (fullscreenMode w)) = False \<and>
            classes (fst (fullscreenMode w)) = classes (removeStyles l w) \<and>
            fullscreenElement (fst (fullscreenMode w)) = None \<and>
            drop 5 (new_effects w (fst (fullscreenMode w))) =
              ExitFullscreen # new_effects w (removeStyles l w)"
      by simp
  qed
  show ?thesis
    by (intro conjI throws first no_request no_add stops leaves)
qed

theorem fullscreenMode_no_container_witness:
  "activeItemViewLeaf no_container_world = Some (note_leaf\<lparr>containerEl := None\<rparr>) \<and>
   viewType (view (note_leaf\<lparr>containerEl := None\<rparr>)) \<noteq> ''empty'' \<and>
   containerEl (note_leaf\<lparr>containerEl := None\<rparr>) = None \<and>
   fullscreenElement no_container_world = None \<and>
   snd (fullscreenMode no_container_world) = Threw TypeError \<and>
   isInZenMode (fst (fullscreenMode no_container_world)) = False \<and>
   drop 5 (new_effects no_container_world (fst (fullscreenMode no_container_world))) = []"
  using fullscreenMode_no_container [OF example_facts(1,2,3)]
  by (simp add: example_facts)

section \<open>Who writes the zen flag\<close>

lemma settings_handlers_flag:
  "isInZenMode (loadSettings w) = isInZenMode w"
  "isInZenMode (saveSettings w) = isInZenMode w"
  "isInZenMode (onChange field v w) = isInZenMode w"
  by (simp_all add: loadSettings_def saveSettings_def onChange_def)

lemma auto_zen_examples:
  "auto_zen_conditions no_item_view_world"
  "auto_zen_conditions other_fullscreen_world"
  by (simp_all add: auto_zen_conditions_def no_item_view_world_def other_fullscreen_world_def
        autozen_world_def fresh_world_def note_leaf_def note_view_def DEFAULT_SETTINGS_def
        get_prop_def set_prop_def trim_def isWhiteSpace_def)

lemma other_fullscreen_facts:
  "activeItemViewLeaf other_fullscreen_world = Some note_leaf"
  "viewType (view note_leaf) \<noteq> ''empty''"
  "containerEl note_leaf = Some 0"
  "fullscreenElement other_fullscreen_world = Some 9"
  "isInZenMode other_fullscreen_world = False"
  by (simp_all add: other_fullscreen_world_def autozen_world_def fresh_world_def note_leaf_def
        note_view_def)

lemma no_item_view_facts:
  "activeItemViewLeaf no_item_view_world = None"
  "isInZenMode no_item_view_world = False"
  by (simp_all add: no_item_view_world_def autozen_world_def fresh_world_def)

text \<open>
  C1, as the specification states it, fails: the handler of the \<^verbatim>\<open>editor-change\<close> event writes
  the zen flag itself. In \<open>no_item_view_world\<close> the toggle finds no target and leaves the flag
  false, and the handler leaves it true. In \<open>other_fullscreen_world\<close> the toggle takes the exit
  branch and sets the flag to false, and after the handler the flag is true.
\<close>

theorem zen_flag_written_by_handler_counterexample:
  "isInZenMode no_item_view_world = False \<and>
   isInZenMode (fst (fullscreenMode no_item_view_world)) = False \<and>
   isInZenMode (fst (dispatch Editor_change no_item_view_world)) = True \<and>
   isInZenMode (fst (fullscreenMode other_fullscreen_world)) = False \<and>
   isInZenMode (fst (dispatch Editor_change other_fullscreen_world)) = True"
proof -
  have "fullscreenMode no_item_view_world =
          (no_item_view_world\<lparr>trace := trace no_item_view_world @ [Enter_fullscreenMode]\<rparr>,
           Returned)"
    by (rule fullscreenMode_no_target) (simp add: no_item_view_facts)
  then have a: "isInZenMode (fst (fullscreenMode no_item_view_world)) = False"
    "isInZenMode (fst (handleEditorChange no_item_view_world)) = True"
    by (simp_all add: handleEditorChange_conditions auto_zen_examples no_item_view_facts)
  note ex = fullscreenMode_exit [OF other_fullscreen_facts(1,2,3,4)]
  have b: "isInZenMode (fst (handleEditorChange other_fullscreen_world)) = True"
    by (simp add: handleEditorChange_conditions auto_zen_examples ex(1))
  show ?thesis
    using a b ex(2) by (simp add: no_item_view_facts)
qed

text \<open>
  C1, amended. Besides the toggle and the fullscreen-change handler it installs, one handler
  writes the zen flag: the auto-zen trigger. When its guard conditions hold and its call of
  the toggle returns, it sets the flag to true; when that call throws, the flag is as the
  toggle left it. In every other case (the auto-zen trigger with a failing guard, the loading
  and the saving of the preferences, and every change of a control of the settings tab) the
  flag after the handler is the flag before it.
\<close>

theorem zen_flag_writers:
  assumes "ev \<noteq> Command_zenmode" and "\<forall>e. ev \<noteq> Fullscreenchange e"
  shows "(ev = Editor_change \<and> auto_zen_conditions w \<and> snd (dispatch ev w) = Returned \<longrightarrow>
            isInZenMode (fst (dispatch ev w)) = True) \<and>
         (ev = Editor_change \<and> auto_zen_conditions w \<and> snd (dispatch ev w) \<noteq> Returned \<longrightarrow>
            isInZenMode (fst (dispatch ev w)) = isInZenMode (fst (fullscreenMode w))) \<and>
         (\<not> (ev = Editor_change \<and> auto_zen_conditions w) \<longrightarrow>
            isInZenMode (fst (dispatch ev w)) = isInZenMode w)"
proof (cases ev)
  case Editor_change
  then show ?thesis
    by (simp add: handleEditorChange_conditions split: outcome.splits)
qed (use assms in \<open>simp_all add: settings_handlers_flag\<close>)

theorem zen_flag_writers_witness:
  "Editor_change \<noteq> Command_zenmode \<and> auto_zen_conditions no_item_view_world \<and>
   snd (dispatch Editor_change no_item_view_world) = Returned \<and>
   isInZenMode (fst (dispatch Editor_change no_item_view_world)) = True \<and>
   isInZenMode (fst (dispatch (Setting_change ''showHeader'' (JBool True)) no_item_view_world)) =
     False \<and>
   isInZenMode (fst (dispatch Load_settings no_item_view_world)) = False"
proof -
  have "fullscreenMode no_item_view_world =
          (no_item_view_world\<lparr>trace := trace no_item_view_world @ [Enter_fullscreenMode]\<rparr>,
           Returned)"
    by (rule fullscreenMode_no_target) (simp add: no_item_view_facts)
  then have r: "snd (dispatch Editor_change no_item_view_world) = Returned"
    by (simp add: handleEditorChange_conditions auto_zen_examples)
  show ?thesis
    using zen_flag_writers [of Editor_change no_item_view_world]
          zen_flag_writers [of "Setting_change ''showHeader'' (JBool True)" no_item_view_world]
          zen_flag_writers [of Load_settings no_item_view_world]
          r
    by (simp add: auto_zen_examples no_item_view_facts)
qed

section \<open>Toggling twice\<close>

lemma diverged_facts:
  "activeItemViewLeaf diverged_world = Some note_leaf"
  "viewType (view note_leaf) \<noteq> ''empty''"
  "containerEl note_leaf = Some 0"
  "fullscreenElement diverged_world = None"
  "isInZenMode diverged_world = True"
  "readableLineLength diverged_world = True"
  "classes diverged_world = (\<lambda>e. {})"
  "editorEl (view note_leaf) = Some 3"
  "viewType (view note_leaf) \<noteq> ''graph''"
  "truthy (get_prop (settings diverged_world) ''forceReadable'')"
  by (simp_all add: diverged_world_def fresh_world_def note_leaf_def note_view_def
        DEFAULT_SETTINGS_def get_prop_def)

text \<open>
  C2, as the specification states it, fails in a state where the zen flag and the fullscreen
  state of the host disagree, and where the readable line length setting of the host is on.
  In \<open>diverged_world\<close> the flag is true and nothing is fullscreen (the auto-zen trigger leaves
  such a state when its toggle finds no target): the first toggle enters, the second exits,
  and the flag ends false. The first toggle adds \<^verbatim>\<open>is-readable-line-width\<close> to
  the editing surface (element 3), and the second leaves it there.
\<close>

theorem toggle_twice_counterexample:
  "isInZenMode diverged_world = True \<and>
   isInZenMode (toggle_twice diverged_world) = False \<and>
   ''is-readable-line-width'' \<notin> classes diverged_world 3 \<and>
   ''is-readable-line-width'' \<in> classes (fst (fullscreenMode diverged_world)) 3 \<and>
   ''is-readable-line-width'' \<in> classes (toggle_twice diverged_world) 3"
proof -
  let ?w1 = "fst (fullscreenMode diverged_world)"
  note en = fullscreenMode_enter [OF diverged_facts(1,2,3,4)]
  have t1: "activeItemViewLeaf ?w1 = Some note_leaf" "fullscreenElement ?w1 = Some 0"
    by (simp_all add: en diverged_facts)
  note ex = fullscreenMode_exit [OF t1(1) diverged_facts(2,3) t1(2)]
  have added: "''is-readable-line-width'' \<in> classes ?w1 3"
    by (simp add: en(8) addStyles_classes diverged_facts)
  have "''is-readable-line-width'' \<in> classes (removeStyles note_leaf ?w1) 3"
    by (simp add: removeStyles_classes added en(6) diverged_facts)
  then have kept: "''is-readable-line-width'' \<in> classes (toggle_twice diverged_world) 3"
    by (simp add: toggle_twice_def ex(8))
  have "isInZenMode (toggle_twice diverged_world) = False"
    by (simp add: toggle_twice_def ex(2))
  with added kept show ?thesis
    by (simp add: diverged_facts)
qed

text \<open>
  C2, amended. In every state with a view that resolves, is not of the empty type and whose
  leaf has its container element, both of two successive toggles return, and after the second
  the zen flag says whether an element was fullscreen before the first. So the flag is back at
  its value before the first call whenever it agreed with the fullscreen state of the host
  then. Every class that the first call added to an element is gone after the second call,
  with one exception: \<^verbatim>\<open>is-readable-line-width\<close> on the editing surface of a view that is not a
  graph stays when the readable line length setting of the host is on.
\<close>

theorem toggle_twice_round_trip:
  assumes "activeItemViewLeaf w = Some l" and "viewType (view l) \<noteq> ''empty''"
    and "containerEl l = Some c"
  shows "snd (fullscreenMode w) = Returned \<and>
         snd (fullscreenMode (fst (fullscreenMode w))) = Returned \<and>
         isInZenMode (toggle_twice w) = (fullscreenElement w \<noteq> None) \<and>
         (isInZenMode w = (fullscreenElement w \<noteq> None) \<longrightarrow>
            isInZenMode (toggle_twice w) = isInZenMode w) \<and>
         (\<forall>e cl. cl \<in> classes (fst (fullscreenMode w)) e \<and> cl \<notin> classes w e \<and>
                 cl \<in> classes (toggle_twice w) e \<longrightarrow>
                 cl = ''is-readable-line-width'' \<and> editorEl (view l) = Some e \<and>
                 viewType (view l) \<noteq> ''graph'' \<and> readableLineLength w)"
proof (cases "fullscreenElement w")
  case None
  let ?w1 = "fst (fullscreenMode w)"
  note en = fullscreenMode_enter [OF assms None]
  have t1: "activeItemViewLeaf ?w1 = Some l" "fullscreenElement ?w1 = Some c"
    by (simp_all add: en assms)
  note ex = fullscreenMode_exit [OF t1(1) assms(2,3) t1(2)]
  have flag: "isInZenMode (toggle_twice w) = False"
    by (simp add: toggle_twice_def ex(2))
  have cls: "cl = ''is-readable-line-width'' \<and> editorEl (view l) = Some e \<and>
             viewType (view l) \<noteq> ''graph'' \<and> readableLineLength w"
    if a: "cl \<in> classes ?w1 e" "cl \<notin> classes w e" "cl \<in> classes (toggle_twice w) e"
    for e cl
  proof -
    from a(1,2) have added:
      "(e = contentEl (view l) \<and>
          (cl = ''noscroll'' \<or> cl = ''vignette-radial'' \<or> cl = ''vignette-linear'' \<or>
           cl = ''animate'')) \<or>
       (controlsEl (view l) = Some e \<and> cl = ''hide'' \<and> viewType (view l) = ''graph'') \<or>
       (editorEl (view l) = Some e \<and> cl = ''is-readable-line-width'' \<and>
          viewType (view l) \<noteq> ''graph'') \<or>
       (e = headerEl (view l) \<and> (cl = ''animate'' \<or> cl = ''hide''))"
      by (auto simp add: en(8) addStyles_classes split: if_splits)
    from a(3) have "cl \<in> classes (removeStyles l ?w1) e"
      by (simp add: toggle_twice_def ex(8))
    then have kept:
      "\<not> (e = contentEl (view l) \<and>
            cl \<in> {''vignette-linear'', ''vignette-radial'', ''animate'', ''noscroll''})"
      "\<not> (e = headerEl (view l) \<and> cl \<in> {''animate'', ''hide''})"
      "\<not> (viewType (view l) = ''graph'' \<and> controlsEl (view l) = Some e \<and>
            cl \<in> {''animate'', ''hide''})"
      "\<not> (viewType (view l) \<noteq> ''graph'' \<and> \<not> readableLineLength w \<and>
            editorEl (view l) = Some e \<and> cl = ''is-readable-line-width'')"
      by (simp_all add: removeStyles_classes en(6))
    from added show ?thesis
      using kept by (elim disjE conjE) simp_all
  qed
  show ?thesis
    using en(1) ex(1) flag None cls by auto
next
  case (Some f)
  let ?w1 = "fst (fullscreenMode w)"
  note ex = fullscreenMode_exit [OF assms Some]
  have t1: "activeItemViewLeaf ?w1 = Some l" "fullscreenElement ?w1 = None"
    by (simp_all add: ex assms)
  note en = fullscreenMode_enter [OF t1(1) assms(2,3) t1(2)]
  have flag: "isInZenMode (toggle_twice w) = True"
    by (simp add: toggle_twice_def en(2))
  have cls: "cl \<in> classes w e" if "cl \<in> classes ?w1 e" for e cl
    using that by (simp add: ex(8) removeStyles_classes)
  show ?thesis
    using en(1) ex(1) flag Some cls by auto
qed

theorem toggle_twice_round_trip_witness:
  "activeItemViewLeaf fresh_world = Some note_leaf \<and>
   viewType (view note_leaf) \<noteq> ''empty'' \<and> containerEl note_leaf = Some 0 \<and>
   isInZenMode fresh_world = (fullscreenElement fresh_world \<noteq> None) \<and>
   snd (fullscreenMode fresh_world) = Returned \<and>
   snd (fullscreenMode (fst (fullscreenMode fresh_world))) = Returned \<and>
   isInZenMode (toggle_twice fresh_world) = isInZenMode fresh_world \<and>
   isInZenMode (toggle_twice fresh_world) = False"
proof -
  have f: "activeItemViewLeaf fresh_world = Some note_leaf"
    "viewType (view note_leaf) \<noteq> ''empty''" "containerEl note_leaf = Some 0"
    "isInZenMode fresh_world = False" "fullscreenElement fresh_world = None"
    by (simp_all add: fresh_world_def note_leaf_def note_view_def)
  show ?thesis
    using toggle_twice_round_trip [OF f(1,2,3)] by (simp add: f)
qed

end
